theory Spec2Isabelle
  imports Complex_Main
begin

section \<open>Floating-point numbers\<close>

text \<open>
  A C++ \<^verbatim>\<open>double\<close> is an IEEE binary64 number: a finite real, an infinity or NaN. (The
  two zeros are one value here. They differ only under a division by zero, which the
  code modelled below performs only on a length, the square root of a sum of squares,
  never a negative zero.) Every arithmetic operation yields the exact result rounded
  to a double. The rounding is a parameter \<open>rnd\<close> of the operations, so that what is
  proved for every \<open>rnd\<close> with the properties \<open>rounding\<close> below holds for the machine's
  arithmetic, rounding errors, overflow and underflow included: rounding to nearest
  with ties to even is monotone, odd, keeps zero and the doubles themselves, and never
  yields NaN. Each operation rounds on its own (no fused multiply-add).
\<close>

datatype double = Finite real | PosInf | NegInf | NaN

fun dneg :: "double \<Rightarrow> double" where
  "dneg (Finite x) = Finite (- x)"
| "dneg PosInf = NegInf"
| "dneg NegInf = PosInf"
| "dneg NaN = NaN"

text \<open>The comparison \<^verbatim>\<open>a < b\<close>: false whenever an operand is NaN.\<close>

fun dlt :: "double \<Rightarrow> double \<Rightarrow> bool" where
  "dlt (Finite x) (Finite y) = (x < y)"
| "dlt (Finite x) PosInf = True"
| "dlt NegInf (Finite y) = True"
| "dlt NegInf PosInf = True"
| "dlt a b = False"

text \<open>The comparison \<^verbatim>\<open>a <= b\<close>, used in statements only.\<close>

definition dle :: "double \<Rightarrow> double \<Rightarrow> bool" where
  "dle a b = (dlt a b \<or> (a = b \<and> a \<noteq> NaN))"

fun dadd :: "(real \<Rightarrow> double) \<Rightarrow> double \<Rightarrow> double \<Rightarrow> double" where
  "dadd rnd (Finite x) (Finite y) = rnd (x + y)"
| "dadd rnd NaN b = NaN"
| "dadd rnd a NaN = NaN"
| "dadd rnd PosInf NegInf = NaN"
| "dadd rnd NegInf PosInf = NaN"
| "dadd rnd PosInf b = PosInf"
| "dadd rnd a PosInf = PosInf"
| "dadd rnd NegInf b = NegInf"
| "dadd rnd a NegInf = NegInf"

definition dsub :: "(real \<Rightarrow> double) \<Rightarrow> double \<Rightarrow> double \<Rightarrow> double" where
  "dsub rnd a b = dadd rnd a (dneg b)"

fun dmul :: "(real \<Rightarrow> double) \<Rightarrow> double \<Rightarrow> double \<Rightarrow> double" where
  "dmul rnd (Finite x) (Finite y) = rnd (x * y)"
| "dmul rnd NaN b = NaN"
| "dmul rnd a NaN = NaN"
| "dmul rnd (Finite x) PosInf = (if x = 0 then NaN else if 0 < x then PosInf else NegInf)"
| "dmul rnd (Finite x) NegInf = (if x = 0 then NaN else if 0 < x then NegInf else PosInf)"
| "dmul rnd PosInf (Finite y) = (if y = 0 then NaN else if 0 < y then PosInf else NegInf)"
| "dmul rnd NegInf (Finite y) = (if y = 0 then NaN else if 0 < y then NegInf else PosInf)"
| "dmul rnd PosInf PosInf = PosInf"
| "dmul rnd NegInf NegInf = PosInf"
| "dmul rnd PosInf NegInf = NegInf"
| "dmul rnd NegInf PosInf = NegInf"

fun ddiv :: "(real \<Rightarrow> double) \<Rightarrow> double \<Rightarrow> double \<Rightarrow> double" where
  "ddiv rnd (Finite x) (Finite y) =
     (if y = 0 then (if x = 0 then NaN else if 0 < x then PosInf else NegInf)
      else rnd (x / y))"
| "ddiv rnd NaN b = NaN"
| "ddiv rnd a NaN = NaN"
| "ddiv rnd (Finite x) PosInf = Finite 0"
| "ddiv rnd (Finite x) NegInf = Finite 0"
| "ddiv rnd PosInf (Finite y) = (if 0 \<le> y then PosInf else NegInf)"
| "ddiv rnd NegInf (Finite y) = (if 0 \<le> y then NegInf else PosInf)"
| "ddiv rnd a b = NaN"

fun dsqrt :: "(real \<Rightarrow> double) \<Rightarrow> double \<Rightarrow> double" where
  "dsqrt rnd (Finite x) = (if x < 0 then NaN else rnd (sqrt x))"
| "dsqrt rnd PosInf = PosInf"
| "dsqrt rnd NegInf = NaN"
| "dsqrt rnd NaN = NaN"

definition rounding :: "(real \<Rightarrow> double) \<Rightarrow> bool" where
  "rounding rnd \<longleftrightarrow>
     (\<forall>x. rnd x \<noteq> NaN)
     \<and> (\<forall>x y. x \<le> y \<longrightarrow> \<not> dlt (rnd y) (rnd x))
     \<and> (\<forall>x. rnd (- x) = dneg (rnd x))
     \<and> rnd 0 = Finite 0
     \<and> (\<forall>x y. rnd x = Finite y \<longrightarrow> rnd y = Finite y)"

text \<open>
  A rounding with the range of binary64 and unlimited precision: the exact result, or
  an infinity from \<open>2\<^sup>1\<^sup>0\<^sup>2\<^sup>4\<close> on. Binary64 arithmetic computes the same value wherever the
  exact result is itself a double, or is at least \<open>2\<^sup>1\<^sup>0\<^sup>2\<^sup>4\<close> in magnitude.
\<close>

definition wide :: "real \<Rightarrow> double" where
  "wide x = (if 2 ^ 1024 \<le> x then PosInf else if x \<le> - (2 ^ 1024) then NegInf else Finite x)"

section \<open>The geometry toolkit\<close>

text \<open>
  Modelled from the spec: the vector library (\<^verbatim>\<open>math/Vec3.h\<close>) is not among the sources.
  A \<open>Vec3\<close> is "a 3-component real-valued vector used interchangeably as a position,
  direction, and RGB color", with "addition, scaling, dot product, ..., normalization
  (unit length), element-wise multiplication". Where it is a position or a direction
  it is an \<open>FVec3\<close>, three doubles, with the operations in floating-point arithmetic:
  the dot product adds the three products from left to right, and normalisation scales
  by the reciprocal of the length, so that the zero vector is normalised to three NaNs.
\<close>

record FVec3 =
  fx :: double
  fy :: double
  fz :: double

definition fvadd :: "(real \<Rightarrow> double) \<Rightarrow> FVec3 \<Rightarrow> FVec3 \<Rightarrow> FVec3" where
  "fvadd rnd a b =
     \<lparr>fx = dadd rnd (fx a) (fx b), fy = dadd rnd (fy a) (fy b), fz = dadd rnd (fz a) (fz b)\<rparr>"

definition fvsub :: "(real \<Rightarrow> double) \<Rightarrow> FVec3 \<Rightarrow> FVec3 \<Rightarrow> FVec3" where
  "fvsub rnd a b =
     \<lparr>fx = dsub rnd (fx a) (fx b), fy = dsub rnd (fy a) (fy b), fz = dsub rnd (fz a) (fz b)\<rparr>"

definition fvneg :: "FVec3 \<Rightarrow> FVec3" where
  "fvneg a = \<lparr>fx = dneg (fx a), fy = dneg (fy a), fz = dneg (fz a)\<rparr>"

definition fscale :: "(real \<Rightarrow> double) \<Rightarrow> FVec3 \<Rightarrow> double \<Rightarrow> FVec3" where
  "fscale rnd a k =
     \<lparr>fx = dmul rnd (fx a) k, fy = dmul rnd (fy a) k, fz = dmul rnd (fz a) k\<rparr>"

definition fdot :: "(real \<Rightarrow> double) \<Rightarrow> FVec3 \<Rightarrow> FVec3 \<Rightarrow> double" where
  "fdot rnd a b =
     dadd rnd (dadd rnd (dmul rnd (fx a) (fx b)) (dmul rnd (fy a) (fy b)))
       (dmul rnd (fz a) (fz b))"

definition flengthSquared :: "(real \<Rightarrow> double) \<Rightarrow> FVec3 \<Rightarrow> double" where
  "flengthSquared rnd a = fdot rnd a a"

definition flength :: "(real \<Rightarrow> double) \<Rightarrow> FVec3 \<Rightarrow> double" where
  "flength rnd a = dsqrt rnd (flengthSquared rnd a)"

definition fnormalised :: "(real \<Rightarrow> double) \<Rightarrow> FVec3 \<Rightarrow> FVec3" where
  "fnormalised rnd a = fscale rnd a (ddiv rnd (Finite 1) (flength rnd a))"

text \<open>
  Modelled from the spec: a \<open>Ray\<close> is "an origin point and a normalized direction vector"
  that "produces a position at parametric distance t along itself" (\<^verbatim>\<open>math/Ray.h\<close> is not
  among the sources).
\<close>

record Ray =
  origin :: FVec3
  direction :: FVec3

definition positionAlong :: "(real \<Rightarrow> double) \<Rightarrow> Ray \<Rightarrow> double \<Rightarrow> FVec3" where
  "positionAlong rnd ray t = fvadd rnd (origin ray) (fscale rnd (direction ray) t)"

text \<open>
  The hit record. \<^verbatim>\<open>Sphere.cpp\<close> builds it as \<^verbatim>\<open>Hit{t, hitPosition, normal}\<close> and
  \<^verbatim>\<open>Render.cpp\<close> reads \<^verbatim>\<open>distance\<close>, \<^verbatim>\<open>position\<close>, \<^verbatim>\<open>normal\<close> and \<^verbatim>\<open>inside\<close>; the
  aggregate initialisation with three values leaves the remaining member \<^verbatim>\<open>inside\<close>
  value-initialised, that is \<open>False\<close>.
\<close>

record Hit =
  distance :: double
  position :: FVec3
  normal :: FVec3
  inside :: bool

record Sphere =
  centre :: FVec3
  radius :: double

section \<open>Sphere intersection\<close>

text \<open>
  \<^verbatim>\<open>fp::Sphere::intersect\<close> (\<^verbatim>\<open>fp/Sphere.cpp\<close>). The constant \<^verbatim>\<open>Epsilon\<close> of
  \<^verbatim>\<open>math/Epsilon.h\<close> is not among the sources and is a parameter.
\<close>

definition fp_Sphere_intersect ::
  "(real \<Rightarrow> double) \<Rightarrow> double \<Rightarrow> Sphere \<Rightarrow> Ray \<Rightarrow> Hit option"
where
  "fp_Sphere_intersect rnd Epsilon s ray =
    (let op = fvsub rnd (centre s) (origin ray);
         radiusSquared = dmul rnd (radius s) (radius s);
         b = fdot rnd op (direction ray);
         determinant =
           dadd rnd (dsub rnd (dmul rnd b b) (flengthSquared rnd op)) radiusSquared
     in if dlt determinant (Finite 0) then None
        else
          let determinant = dsqrt rnd determinant;
              minusT = dsub rnd b determinant;
              plusT = dadd rnd b determinant
          in if dlt minusT Epsilon \<and> dlt plusT Epsilon then None
             else
               let t = (if dlt Epsilon minusT then minusT else plusT);
                   hitPosition = positionAlong rnd ray t;
                   normal = fnormalised rnd (fvsub rnd hitPosition (centre s));
                   normal =
                     (if dlt (Finite 0) (fdot rnd normal (direction ray)) then fvneg normal
                      else normal)
               in Some \<lparr>distance = t, position = hitPosition, normal = normal,
                        inside = False\<rparr>)"

text \<open>
  \<^verbatim>\<open>oo::Sphere::intersect\<close> (\<^verbatim>\<open>oo/Sphere.cpp\<close>) reports through its boolean result
  and writes the hit through the reference parameter \<^verbatim>\<open>hit\<close>: the model takes the
  caller's \<open>hit\<close> and returns it, updated only on success.
\<close>

definition oo_Sphere_intersect ::
  "(real \<Rightarrow> double) \<Rightarrow> double \<Rightarrow> Sphere \<Rightarrow> Ray \<Rightarrow> Hit \<Rightarrow> bool \<times> Hit"
where
  "oo_Sphere_intersect rnd Epsilon s ray hit =
    (let op = fvsub rnd (centre s) (origin ray);
         radiusSquared = dmul rnd (radius s) (radius s);
         b = fdot rnd op (direction ray);
         determinant =
           dadd rnd (dsub rnd (dmul rnd b b) (flengthSquared rnd op)) radiusSquared
     in if dlt determinant (Finite 0) then (False, hit)
        else
          let determinant = dsqrt rnd determinant;
              minusT = dsub rnd b determinant;
              plusT = dadd rnd b determinant
          in if dlt minusT Epsilon \<and> dlt plusT Epsilon then (False, hit)
             else
               let t = (if dlt Epsilon minusT then minusT else plusT);
                   hitPosition = positionAlong rnd ray t;
                   normal = fnormalised rnd (fvsub rnd hitPosition (centre s));
                   normal =
                     (if dlt (Finite 0) (fdot rnd normal (direction ray)) then fvneg normal
                      else normal)
               in (True, \<lparr>distance = t, position = hitPosition, normal = normal,
                          inside = False\<rparr>))"

section \<open>Colours\<close>

text \<open>
  Modelled from the spec: where a \<open>Vec3\<close> is an RGB colour (a material's diffuse and
  emission colours, the environment, a radiance estimate, a pixel) its components are
  idealised as reals, so that rounding of colour arithmetic is not modelled; a division
  of a colour by zero is named where it occurs.
\<close>

record Vec3 =
  vx :: real
  vy :: real
  vz :: real

definition vzero :: Vec3 where
  "vzero = \<lparr>vx = 0, vy = 0, vz = 0\<rparr>"

definition vadd :: "Vec3 \<Rightarrow> Vec3 \<Rightarrow> Vec3" where
  "vadd a b = \<lparr>vx = vx a + vx b, vy = vy a + vy b, vz = vz a + vz b\<rparr>"

definition scale :: "Vec3 \<Rightarrow> real \<Rightarrow> Vec3" where
  "scale a k = \<lparr>vx = vx a * k, vy = vy a * k, vz = vz a * k\<rparr>"

definition vmul :: "Vec3 \<Rightarrow> Vec3 \<Rightarrow> Vec3" where
  "vmul a b = \<lparr>vx = vx a * vx b, vy = vy a * vy b, vz = vz a * vz b\<rparr>"

section \<open>Scenes and the scene intersector\<close>

text \<open>
  Modelled from the spec: a \<open>Material\<close> has a "diffuse color (albedo), emission color
  ..., a reflectivity coefficient ..., an index of refraction, and a cone angle
  controlling reflection blur" (\<^verbatim>\<open>Material.h\<close> is not among the sources); the field names
  are the ones \<^verbatim>\<open>Render.cpp\<close> reads.
\<close>

record Material =
  diffuse :: Vec3
  emission :: Vec3
  reflectivity :: real
  indexOfRefraction :: real
  reflectionConeAngleRadians :: real

text \<open>
  Modelled from the spec: a triangle is given by its three vertices; its intersection
  test (\<^verbatim>\<open>fp/Triangle.cpp\<close>) is not among the sources and is a parameter,
  \<open>triangle_intersect\<close>, of everything that intersects a primitive.
\<close>

record Triangle =
  vertex0 :: FVec3
  vertex1 :: FVec3
  vertex2 :: FVec3

text \<open>The variant \<^verbatim>\<open>Primitive\<close> over \<^verbatim>\<open>TrianglePrimitive\<close> and \<^verbatim>\<open>SpherePrimitive\<close>.\<close>

datatype Primitive =
  TrianglePrimitive Triangle Material
| SpherePrimitive Sphere Material

record Scene =
  primitives :: "Primitive list"
  environment :: Vec3

record IntersectionRecord =
  hit :: Hit
  material :: Material

text \<open>\<^verbatim>\<open>intersect(const Primitive &, const Ray &)\<close>: the visitor and its \<^verbatim>\<open>map\<close>.\<close>

fun intersect_Primitive ::
  "(real \<Rightarrow> double) \<Rightarrow> double \<Rightarrow> (Triangle \<Rightarrow> Ray \<Rightarrow> Hit option) \<Rightarrow> Primitive \<Rightarrow> Ray
     \<Rightarrow> IntersectionRecord option"
where
  "intersect_Primitive rnd Epsilon triangle_intersect (TrianglePrimitive triangle mat) ray =
     map_option (\<lambda>h. \<lparr>hit = h, material = mat\<rparr>) (triangle_intersect triangle ray)"
| "intersect_Primitive rnd Epsilon triangle_intersect (SpherePrimitive sphere mat) ray =
     map_option (\<lambda>h. \<lparr>hit = h, material = mat\<rparr>)
       (fp_Sphere_intersect rnd Epsilon sphere ray)"

text \<open>
  The loop of \<^verbatim>\<open>intersect(const Scene &, const Ray &)\<close> over the primitives that are
  left, with the candidate \<^verbatim>\<open>nearest\<close> as it stands. The condition
  \<^verbatim>\<open>thisIntersection && (!nearest || ... < ...)\<close> is evaluated left to right, and its
  \<^verbatim>\<open><\<close> compares two doubles.
\<close>

fun intersect_loop ::
  "(real \<Rightarrow> double) \<Rightarrow> double \<Rightarrow> (Triangle \<Rightarrow> Ray \<Rightarrow> Hit option) \<Rightarrow> Ray \<Rightarrow> Primitive list
     \<Rightarrow> IntersectionRecord option \<Rightarrow> IntersectionRecord option"
where
  "intersect_loop rnd Epsilon triangle_intersect ray [] nearest = nearest"
| "intersect_loop rnd Epsilon triangle_intersect ray (primitive # rest) nearest =
     (case intersect_Primitive rnd Epsilon triangle_intersect primitive ray of
        None \<Rightarrow> intersect_loop rnd Epsilon triangle_intersect ray rest nearest
      | Some thisIntersection \<Rightarrow>
          (case nearest of
             None \<Rightarrow>
               intersect_loop rnd Epsilon triangle_intersect ray rest (Some thisIntersection)
           | Some n \<Rightarrow>
               if dlt (distance (hit thisIntersection)) (distance (hit n))
               then intersect_loop rnd Epsilon triangle_intersect ray rest
                      (Some thisIntersection)
               else intersect_loop rnd Epsilon triangle_intersect ray rest nearest))"

definition intersect_Scene ::
  "(real \<Rightarrow> double) \<Rightarrow> double \<Rightarrow> (Triangle \<Rightarrow> Ray \<Rightarrow> Hit option) \<Rightarrow> Scene \<Rightarrow> Ray
     \<Rightarrow> IntersectionRecord option"
where
  "intersect_Scene rnd Epsilon triangle_intersect scene ray =
     intersect_loop rnd Epsilon triangle_intersect ray (primitives scene) None"

section \<open>The radiance estimator\<close>

text \<open>
  Modelled from the spec: the render parameters (\<^verbatim>\<open>RenderParams.h\<close> is not among the
  sources), with the fields \<^verbatim>\<open>Render.cpp\<close> reads. The counts are C++ \<^verbatim>\<open>int\<close>s: they
  are \<open>int\<close> here, and an operation that would leave the range of a 32-bit \<^verbatim>\<open>int\<close> is an
  error of the model.
\<close>

record RenderParams =
  width :: int
  height :: int
  samplesPerPixel :: int
  maxDepth :: int
  firstBounceUSamples :: int
  firstBounceVSamples :: int
  preview :: bool
  maxCpus :: int
  seed :: nat

definition INT_MAX :: int where
  "INT_MAX = 2147483647"

text \<open>
  What the C++ does where the model of the estimator ends: \<open>BadRange\<close> is
  \<^verbatim>\<open>views::ints(0, n)\<close> with \<open>n < 0\<close> (outside the precondition of the view),
  \<open>IntOverflow\<close> is signed overflow of an \<^verbatim>\<open>int\<close> (undefined behaviour), \<open>NonFinite\<close>
  is a division of a colour by zero (the result has NaN or infinite components, and so
  has every sum and product it enters). The model follows the computation no further:
  an error is the result of the whole call.
\<close>

datatype error = BadRange | IntOverflow | NonFinite

record OrthoNormalBasis =
  xAxis :: FVec3
  yAxis :: FVec3
  zAxis :: FVec3

text \<open>
  Modelled from the spec: the parts of the supplied toolkit that \<^verbatim>\<open>Render.cpp\<close> calls
  and that are not among the sources, as parameters: the rounding of the machine's
  arithmetic, the epsilon threshold (\<^verbatim>\<open>Epsilon\<close>), the triangle test
  (\<^verbatim>\<open>Triangle::intersect\<close>), one draw of \<^verbatim>\<open>std::uniform_real_distribution\<close> from the
  generator (returning the value and the generator's next state), Fresnel reflectance,
  mirror reflection, the cone and hemisphere samplers and \<^verbatim>\<open>OrthoNormalBasis::fromZ\<close>.
  The type \<open>'g\<close> is the state of the generator (\<^verbatim>\<open>std::mt19937\<close>).
\<close>

record 'g Toolkit =
  rounds :: "real \<Rightarrow> double"
  epsilon :: double
  triangleTest :: "Triangle \<Rightarrow> Ray \<Rightarrow> Hit option"
  unit_draw :: "'g \<Rightarrow> real \<times> 'g"
  reflectance :: "FVec3 \<Rightarrow> FVec3 \<Rightarrow> real \<Rightarrow> real \<Rightarrow> real"
  reflect :: "FVec3 \<Rightarrow> FVec3 \<Rightarrow> FVec3"
  coneSample :: "FVec3 \<Rightarrow> real \<Rightarrow> real \<Rightarrow> real \<Rightarrow> FVec3"
  hemisphereSample :: "OrthoNormalBasis \<Rightarrow> real \<Rightarrow> real \<Rightarrow> FVec3"
  fromZ :: "FVec3 \<Rightarrow> OrthoNormalBasis"

text \<open>
  \<^verbatim>\<open>radiance\<close> and \<^verbatim>\<open>singleRay\<close>, with the generator passed in and returned.
  \<open>accumulate\<close> is the \<^verbatim>\<open>accumulate\<close> of \<^verbatim>\<open>radiance\<close> over the lazily transformed
  cartesian product: for each cell \<open>(v, u)\<close> left it runs \<^verbatim>\<open>toUVSample\<close> (two draws,
  \<open>u\<close> first) and then \<^verbatim>\<open>singleRay\<close>, and adds the result to the sum so far.
\<close>

function
  radiance :: "'g Toolkit \<Rightarrow> Scene \<Rightarrow> 'g \<Rightarrow> Ray \<Rightarrow> int \<Rightarrow> RenderParams \<Rightarrow> error + Vec3 \<times> 'g"
  and singleRay :: "'g Toolkit \<Rightarrow> Scene \<Rightarrow> 'g \<Rightarrow> IntersectionRecord \<Rightarrow> Ray \<Rightarrow> OrthoNormalBasis
     \<Rightarrow> real \<Rightarrow> real \<Rightarrow> int \<Rightarrow> RenderParams \<Rightarrow> error + Vec3 \<times> 'g"
  and accumulate :: "'g Toolkit \<Rightarrow> Scene \<Rightarrow> 'g \<Rightarrow> IntersectionRecord \<Rightarrow> Ray \<Rightarrow> OrthoNormalBasis
     \<Rightarrow> int \<Rightarrow> int \<Rightarrow> int \<Rightarrow> RenderParams \<Rightarrow> (int \<times> int) list \<Rightarrow> Vec3 \<Rightarrow> error + Vec3 \<times> 'g"
where
  "radiance tk scene rng ray depth renderParams =
     (let numUSamples = (if depth = 0 then firstBounceUSamples renderParams else 1);
          numVSamples = (if depth = 0 then firstBounceVSamples renderParams else 1)
      in if depth \<ge> maxDepth renderParams then Inr (vzero, rng)
         else
           case intersect_Scene (rounds tk) (epsilon tk) (triangleTest tk) scene ray of
             None \<Rightarrow> Inr (environment scene, rng)
           | Some intersectionRecord \<Rightarrow>
               if preview renderParams then Inr (diffuse (material intersectionRecord), rng)
               else if numVSamples < 0 \<or> numUSamples < 0 then Inl BadRange
               else
                 (case accumulate tk scene rng intersectionRecord ray
                         (fromZ tk (normal (hit intersectionRecord)))
                         numUSamples numVSamples (depth + 1) renderParams
                         (List.product [0..numVSamples - 1] [0..numUSamples - 1]) vzero of
                    Inl e \<Rightarrow> Inl e
                  | Inr (incomingLight, rng') \<Rightarrow>
                      if numUSamples * numVSamples > INT_MAX then Inl IntOverflow
                      else if numUSamples * numVSamples = 0 then Inl NonFinite
                      else Inr (vadd (emission (material intersectionRecord))
                                  (scale incomingLight
                                     (1 / real_of_int (numUSamples * numVSamples))), rng')))"
| "singleRay tk scene rng intersectionRecord ray basis u v depth renderParams =
     (let mat = material intersectionRecord;
          h = hit intersectionRecord;
          p = fst (unit_draw tk rng);
          rng' = snd (unit_draw tk rng);
          iorFrom = (if inside h then indexOfRefraction mat else 1);
          iorTo = (if inside h then 1 else indexOfRefraction mat);
          reflectivity =
            (if reflectivity mat < 0
             then reflectance tk (normal h) (direction ray) iorFrom iorTo
             else reflectivity mat)
      in if p < reflectivity then
           radiance tk scene rng'
             \<lparr>origin = position h,
              direction = coneSample tk (reflect tk (normal h) (direction ray))
                            (reflectionConeAngleRadians mat) u v\<rparr>
             depth renderParams
         else
           case radiance tk scene rng'
                  \<lparr>origin = position h, direction = hemisphereSample tk basis u v\<rparr>
                  depth renderParams of
             Inl e \<Rightarrow> Inl e
           | Inr (light, rng'') \<Rightarrow> Inr (vmul (diffuse mat) light, rng''))"
| "accumulate tk scene rng intersectionRecord ray basis numUSamples numVSamples depth
     renderParams [] acc = Inr (acc, rng)"
| "accumulate tk scene rng intersectionRecord ray basis numUSamples numVSamples depth
     renderParams ((v, u) # cells) acc =
     (let sampleU = (real_of_int u + fst (unit_draw tk rng)) / real_of_int numUSamples;
          rng1 = snd (unit_draw tk rng);
          sampleV = (real_of_int v + fst (unit_draw tk rng1)) / real_of_int numVSamples;
          rng2 = snd (unit_draw tk rng1)
      in case singleRay tk scene rng2 intersectionRecord ray basis sampleU sampleV depth
                renderParams of
           Inl e \<Rightarrow> Inl e
         | Inr (light, rng') \<Rightarrow>
             accumulate tk scene rng' intersectionRecord ray basis numUSamples numVSamples
               depth renderParams cells (vadd acc light))"
  by pat_completeness auto

termination
  by (relation "inv_image (less_than <*lex*> less_than)
        (\<lambda>a. case a of
            Inl (tk, scene, rng, ray, depth, rp) \<Rightarrow> (2 * nat (maxDepth rp - depth), 0)
          | Inr (Inl (tk, scene, rng, ir, ray, basis, u, v, depth, rp)) \<Rightarrow>
              (2 * nat (maxDepth rp - depth) + 1, 0)
          | Inr (Inr (tk, scene, rng, ir, ray, basis, nu, nv, depth, rp, cells, acc)) \<Rightarrow>
              (2 * nat (maxDepth rp - depth) + 1, Suc (length cells)))")
    auto

declare radiance.simps [simp del] singleRay.simps [simp del]

section \<open>The parallel sample scheduler\<close>

text \<open>
  Modelled from the spec: the pixel buffer (\<^verbatim>\<open>util/ArrayOutput.h\<close> is not among the
  sources) is "a width x height grid of Vec3" that "supports element-wise addition of
  two buffers of identical dimensions".
\<close>

record ArrayOutput =
  columns :: int
  rows :: int
  pixels :: "Vec3 list"

definition ArrayOutput_new :: "int \<Rightarrow> int \<Rightarrow> ArrayOutput" where
  "ArrayOutput_new w h = \<lparr>columns = w, rows = h, pixels = replicate (nat (w * h)) vzero\<rparr>"

definition ArrayOutput_add :: "ArrayOutput \<Rightarrow> ArrayOutput \<Rightarrow> ArrayOutput" where
  "ArrayOutput_add a b = a\<lparr>pixels := map2 vadd (pixels a) (pixels b)\<rparr>"

definition INT_MIN :: int where
  "INT_MIN = - 2147483648"

text \<open>
  The state of \<^verbatim>\<open>render\<close>: the accumulator \<^verbatim>\<open>output\<close> (\<open>outputBuffer\<close>) and the
  counter \<^verbatim>\<open>numDone\<close>, and, to observe its effects, the arguments of the calls of
  \<^verbatim>\<open>progressifier.update\<close> (\<open>progress\<close>) and of \<^verbatim>\<open>updateFunc\<close> (\<open>updates\<close>, each with
  the value of \<^verbatim>\<open>numDone\<close> at the call) in the order of the calls, and the number of
  futures launched by each pass of the outer loop (\<open>batches\<close>).
\<close>

record RenderState =
  outputBuffer :: ArrayOutput
  numDone :: nat
  progress :: "nat list"
  updates :: "(nat \<times> ArrayOutput) list"
  batches :: "nat list"

text \<open>
  The inner \<^verbatim>\<open>for\<close> loop that launches the futures of one batch. Which seed a task
  reads depends on the schedule of the threads (see \<open>task_step\<close> below), so the buffer
  that the future launched at sample index \<open>ss\<close> yields is a parameter, \<open>frame ss\<close>.
\<close>

function launch_loop :: "(int \<Rightarrow> ArrayOutput) \<Rightarrow> int \<Rightarrow> int \<Rightarrow> ArrayOutput list \<Rightarrow> ArrayOutput list"
where
  "launch_loop frame ss bound futures =
     (if ss < bound then launch_loop frame (ss + 1) bound (futures @ [frame ss])
      else futures)"
  by pat_completeness auto
termination
  by (relation "measure (\<lambda>(frame, ss, bound, futures). nat (bound - ss))") auto

declare launch_loop.simps [simp del]

text \<open>The loop \<^verbatim>\<open>for (auto &&future : futures)\<close> that joins and merges a batch.\<close>

fun join_loop :: "ArrayOutput list \<Rightarrow> RenderState \<Rightarrow> RenderState" where
  "join_loop [] st = st"
| "join_loop (future # rest) st =
     join_loop rest
       (st\<lparr>outputBuffer := ArrayOutput_add (outputBuffer st) future,
           numDone := numDone st + 1,
           progress := progress st @ [numDone st + 1],
           updates := updates st @ [(numDone st + 1, ArrayOutput_add (outputBuffer st) future)]\<rparr>)"

text \<open>
  The outer loop of \<^verbatim>\<open>render\<close>. It need not end (\<^verbatim>\<open>maxCpus\<close> can be 0), so it is a
  partial function: \<open>None\<close> is a loop that runs forever. \<^verbatim>\<open>sample + maxCpus\<close> is a sum
  of \<^verbatim>\<open>int\<close>s, undefined outside the range of \<^verbatim>\<open>int\<close>: \<open>Inl IntOverflow\<close>.
\<close>

partial_function (option) render_loop ::
  "RenderParams \<Rightarrow> (int \<Rightarrow> ArrayOutput) \<Rightarrow> int \<Rightarrow> RenderState \<Rightarrow> (error + RenderState) option"
where
  "render_loop renderParams frame sample st =
     (if sample < samplesPerPixel renderParams then
        if sample + maxCpus renderParams > INT_MAX \<or> sample + maxCpus renderParams < INT_MIN
        then Some (Inl IntOverflow)
        else
          render_loop renderParams frame (sample + maxCpus renderParams)
            (join_loop
               (launch_loop frame sample
                  (min (samplesPerPixel renderParams) (sample + maxCpus renderParams)) [])
               (st\<lparr>batches := batches st @
                    [length (launch_loop frame sample
                       (min (samplesPerPixel renderParams) (sample + maxCpus renderParams))
                       [])]\<rparr>))
      else Some (Inr st))"

definition render :: "RenderParams \<Rightarrow> (int \<Rightarrow> ArrayOutput) \<Rightarrow> (error + RenderState) option" where
  "render renderParams frame =
     render_loop renderParams frame 0
       \<lparr>outputBuffer = ArrayOutput_new (width renderParams) (height renderParams),
        numDone = 0, progress = [], updates = [], batches = []\<rparr>"

subsection \<open>The seed counter shared by the tasks of a batch\<close>

text \<open>
  Each task of a batch runs \<^verbatim>\<open>renderWholeScreen(camera, scene, seed++, renderParams)\<close>
  on its own thread, with \<^verbatim>\<open>seed\<close> captured by reference and no synchronisation.
  \<^verbatim>\<open>seed++\<close> is a read of the variable followed by a write of the value read plus
  one. A task has not yet read the seed, or has read it, or has written it back and
  renders with the value it read. A schedule is the order in which the threads take
  their next step, given as the list of their indices. The seeds of this model stay far
  below the range of the counter's type, so its wrap-around is left out.
\<close>

datatype task = NotStarted | HasRead nat | Rendering nat

record Batch =
  seedVar :: nat
  tasks :: "task list"

definition task_step :: "nat \<Rightarrow> Batch \<Rightarrow> Batch" where
  "task_step i b =
     (if i < length (tasks b) then
        (case tasks b ! i of
           NotStarted \<Rightarrow> b\<lparr>tasks := (tasks b)[i := HasRead (seedVar b)]\<rparr>
         | HasRead s \<Rightarrow> \<lparr>seedVar = s + 1, tasks = (tasks b)[i := Rendering s]\<rparr>
         | Rendering s \<Rightarrow> b)
      else b)"

text \<open>
  The tasks that the first pass of the outer loop of \<^verbatim>\<open>render\<close> launches, one for each
  \<open>ss\<close> from 0 up to \<^verbatim>\<open>min(samplesPerPixel, maxCpus)\<close>, and the counter they share,
  which starts at \<^verbatim>\<open>renderParams.seed\<close>.
\<close>

definition first_batch :: "RenderParams \<Rightarrow> Batch" where
  "first_batch renderParams =
     \<lparr>seedVar = seed renderParams,
      tasks = replicate (nat (min (samplesPerPixel renderParams) (maxCpus renderParams)))
                NotStarted\<rparr>"

fun run_schedule :: "nat list \<Rightarrow> Batch \<Rightarrow> Batch" where
  "run_schedule [] b = b"
| "run_schedule (i # schedule) b = run_schedule schedule (task_step i b)"

section \<open>Parts of the code that the statements name\<close>

text \<open>
  The values \<^verbatim>\<open>minusT\<close> and \<^verbatim>\<open>plusT\<close> of \<^verbatim>\<open>Sphere::intersect\<close>, the two roots of the
  quadratic as the code computes them (\<open>discriminant\<close> is its \<^verbatim>\<open>determinant\<close> before the
  square root is taken).
\<close>

definition discriminant :: "(real \<Rightarrow> double) \<Rightarrow> Sphere \<Rightarrow> Ray \<Rightarrow> double" where
  "discriminant rnd s ray =
     dadd rnd
       (dsub rnd
          (dmul rnd (fdot rnd (fvsub rnd (centre s) (origin ray)) (direction ray))
             (fdot rnd (fvsub rnd (centre s) (origin ray)) (direction ray)))
          (flengthSquared rnd (fvsub rnd (centre s) (origin ray))))
       (dmul rnd (radius s) (radius s))"

definition minusT :: "(real \<Rightarrow> double) \<Rightarrow> Sphere \<Rightarrow> Ray \<Rightarrow> double" where
  "minusT rnd s ray =
     dsub rnd (fdot rnd (fvsub rnd (centre s) (origin ray)) (direction ray))
       (dsqrt rnd (discriminant rnd s ray))"

definition plusT :: "(real \<Rightarrow> double) \<Rightarrow> Sphere \<Rightarrow> Ray \<Rightarrow> double" where
  "plusT rnd s ray =
     dadd rnd (fdot rnd (fvsub rnd (centre s) (origin ray)) (direction ray))
       (dsqrt rnd (discriminant rnd s ray))"

text \<open>
  The two things the visitor of \<^verbatim>\<open>intersect(const Primitive &, const Ray &)\<close> combines:
  \<^verbatim>\<open>primitive.material\<close> and the result of the primitive's own test,
  \<^verbatim>\<open>primitive.triangle.intersect(ray)\<close> or \<^verbatim>\<open>primitive.sphere.intersect(ray)\<close>.
\<close>

fun material_of :: "Primitive \<Rightarrow> Material" where
  "material_of (TrianglePrimitive triangle mat) = mat"
| "material_of (SpherePrimitive sphere mat) = mat"

fun hit_of ::
  "(real \<Rightarrow> double) \<Rightarrow> double \<Rightarrow> (Triangle \<Rightarrow> Ray \<Rightarrow> Hit option) \<Rightarrow> Primitive \<Rightarrow> Ray
     \<Rightarrow> Hit option"
where
  "hit_of rnd Epsilon triangle_intersect (TrianglePrimitive triangle mat) ray =
     triangle_intersect triangle ray"
| "hit_of rnd Epsilon triangle_intersect (SpherePrimitive sphere mat) ray =
     fp_Sphere_intersect rnd Epsilon sphere ray"

section \<open>Concrete inputs\<close>

text \<open>
  The double nearest to \<^verbatim>\<open>1e-4\<close>, for the epsilon threshold, and a stand-in for the
  toolkit, to evaluate the code at concrete inputs: the arithmetic is \<open>wide\<close>, no
  triangle is ever hit, every draw is 0, and the samplers return the direction they are
  given.
\<close>

definition Epsilon0 :: real where
  "Epsilon0 = 7378697629483821 / 2 ^ 66"

definition toolkit0 :: "nat Toolkit" where
  "toolkit0 =
     \<lparr>rounds = wide,
      epsilon = Finite Epsilon0,
      triangleTest = (\<lambda>triangle ray. None),
      unit_draw = (\<lambda>rng. (0, Suc rng)),
      reflectance = (\<lambda>n d iorFrom iorTo. 0),
      reflect = (\<lambda>n d. d),
      coneSample = (\<lambda>d angle u v. d),
      hemisphereSample = (\<lambda>basis u v. zAxis basis),
      fromZ = (\<lambda>n. \<lparr>xAxis = n, yAxis = n, zAxis = n\<rparr>)\<rparr>"

definition rayZ :: Ray where
  "rayZ =
     \<lparr>origin = \<lparr>fx = Finite 0, fy = Finite 0, fz = Finite 0\<rparr>,
      direction = \<lparr>fx = Finite 0, fy = Finite 0, fz = Finite 1\<rparr>\<rparr>"

definition sphereAhead :: Sphere where
  "sphereAhead = \<lparr>centre = \<lparr>fx = Finite 0, fy = Finite 0, fz = Finite 5\<rparr>, radius = Finite 1\<rparr>"



definition sphereGrazed :: Sphere where
  "sphereGrazed =
     \<lparr>centre = \<lparr>fx = Finite 0, fy = Finite 0, fz = Finite (- (16383 / 16384))\<rparr>,
      radius = Finite 1\<rparr>"

definition sphereBehind :: Sphere where
  "sphereBehind = \<lparr>centre = \<lparr>fx = Finite 0, fy = Finite 0, fz = Finite 9\<rparr>, radius = Finite 1\<rparr>"

definition remote :: real where
  "remote = 2 ^ 600"

definition sphereRemote :: Sphere where
  "sphereRemote =
     \<lparr>centre = \<lparr>fx = Finite 0, fy = Finite 0, fz = Finite remote\<rparr>, radius = Finite 1\<rparr>"

definition lamp :: Material where
  "lamp =
     \<lparr>diffuse = \<lparr>vx = 1 / 2, vy = 1 / 2, vz = 1 / 2\<rparr>,
      emission = \<lparr>vx = 4, vy = 4, vz = 4\<rparr>,
      reflectivity = 0, indexOfRefraction = 1, reflectionConeAngleRadians = 0\<rparr>"

definition matte :: Material where
  "matte =
     \<lparr>diffuse = \<lparr>vx = 1 / 4, vy = 1 / 4, vz = 1 / 4\<rparr>,
      emission = \<lparr>vx = 0, vy = 0, vz = 0\<rparr>,
      reflectivity = 0, indexOfRefraction = 1, reflectionConeAngleRadians = 0\<rparr>"

definition grey :: Vec3 where
  "grey = \<lparr>vx = 1 / 10, vy = 1 / 10, vz = 1 / 10\<rparr>"

definition lampScene :: Scene where
  "lampScene = \<lparr>primitives = [SpherePrimitive sphereAhead lamp], environment = grey\<rparr>"

definition grazedScene :: Scene where
  "grazedScene = \<lparr>primitives = [SpherePrimitive sphereGrazed lamp], environment = grey\<rparr>"

definition tieScene :: Scene where
  "tieScene =
     \<lparr>primitives =
        [SpherePrimitive sphereBehind matte, SpherePrimitive sphereAhead lamp,
         SpherePrimitive sphereAhead matte],
      environment = grey\<rparr>"

definition remoteScene :: Scene where
  "remoteScene =
     \<lparr>primitives = [SpherePrimitive sphereRemote matte, SpherePrimitive sphereAhead lamp],
      environment = grey\<rparr>"

definition params0 :: RenderParams where
  "params0 =
     \<lparr>width = 1, height = 1, samplesPerPixel = 1, maxDepth = 1, firstBounceUSamples = 1,
      firstBounceVSamples = 1, preview = False, maxCpus = 1, seed = 0\<rparr>"

definition frame0 :: "int \<Rightarrow> ArrayOutput" where
  "frame0 ss = ArrayOutput_new 1 1"

section \<open>Facts about doubles\<close>

lemma dlt_irrefl: "\<not> dlt a a"
  by (cases a) simp_all

lemma dlt_asym: "dlt a b \<Longrightarrow> \<not> dlt b a"
  by (cases a; cases b) simp_all

lemma dlt_trans: "dlt a b \<Longrightarrow> dlt b c \<Longrightarrow> dlt a c"
  by (cases a; cases b; cases c) simp_all

text \<open>\<open>v \<le> u < e\<close>, with \<open>v \<le> u\<close> given as "not \<open>u < v\<close>" between numbers.\<close>

lemma dlt_below: "\<not> dlt u v \<Longrightarrow> dlt u e \<Longrightarrow> v \<noteq> NaN \<Longrightarrow> dlt v e"
  by (cases u; cases v; cases e) simp_all

lemma dle_dlt_trans: "dle a b \<Longrightarrow> dlt b c \<Longrightarrow> dlt a c"
  by (auto simp: dle_def dest: dlt_trans)

lemma dlt_not_dle: "dlt a b \<Longrightarrow> \<not> dle b a"
  by (auto simp: dle_def dlt_irrefl dest: dlt_asym)

lemma not_dlt_dle: "\<not> dlt a b \<Longrightarrow> a \<noteq> NaN \<Longrightarrow> b \<noteq> NaN \<Longrightarrow> dle b a"
  by (cases a; cases b) (auto simp: dle_def)

lemma dneg_dneg: "dneg (dneg a) = a"
  by (cases a) simp_all


lemma rounding_not_NaN: "rounding rnd \<Longrightarrow> rnd x \<noteq> NaN"
  by (simp add: rounding_def)

lemma rounding_mono: "rounding rnd \<Longrightarrow> x \<le> y \<Longrightarrow> \<not> dlt (rnd y) (rnd x)"
  by (simp add: rounding_def)


lemma rounding_zero: "rounding rnd \<Longrightarrow> rnd 0 = Finite 0"
  by (simp add: rounding_def)


lemma rounding_nonneg: "rounding rnd \<Longrightarrow> 0 \<le> x \<Longrightarrow> \<not> dlt (rnd x) (Finite 0)"
  using rounding_mono [of rnd 0 x] by (simp add: rounding_zero)

lemma rounding_wide: "rounding wide"
  unfolding rounding_def
proof (intro conjI allI impI)
  fix x y :: real
  show "wide x \<noteq> NaN"
    by (simp add: wide_def)
  show "wide (- x) = dneg (wide x)"
    by (simp add: wide_def)
  show "wide 0 = Finite 0"
    by (simp add: wide_def)
  show "\<not> dlt (wide y) (wide x)" if "x \<le> y"
    using that by (auto simp: wide_def)
  show "wide y = Finite y" if "wide x = Finite y"
    using that by (auto simp: wide_def split: if_splits)
qed

lemma wide_small: "\<bar>x\<bar> \<le> 1000000 \<Longrightarrow> wide x = Finite x"
proof -
  assume a: "\<bar>x\<bar> \<le> 1000000"
  have "(1000000 :: real) < 2 ^ 20"
    by simp
  also have "(2 :: real) ^ 20 \<le> 2 ^ 1024"
    by (rule power_increasing) simp_all
  finally have "(1000000 :: real) < 2 ^ 1024" .
  with a show ?thesis
    by (auto simp: wide_def)
qed





lemma dsqrt_nonneg: "rounding rnd \<Longrightarrow> \<not> dlt (dsqrt rnd a) (Finite 0)"
  by (cases a) (simp_all add: rounding_nonneg)

text \<open>
  With a square root \<open>s\<close> (not negative, perhaps NaN): when \<open>b + s\<close> is below a bound, so
  is \<open>b - s\<close>.
\<close>

lemma minus_below_plus:
  assumes r: "rounding rnd"
    and s: "\<not> dlt s (Finite 0)"
    and p: "dlt (dadd rnd b s) e"
  shows "dlt (dsub rnd b s) e"
proof (cases b)
  case (Finite x)
  show ?thesis
  proof (cases s)
    case (Finite y)
    with s have y: "0 \<le> y" by simp
    then have "x - y \<le> x + y" by simp
    then have "\<not> dlt (rnd (x + y)) (rnd (x - y))"
      by (rule rounding_mono [OF r])
    moreover have "dlt (rnd (x + y)) e"
      using p \<open>b = Finite x\<close> Finite by simp
    ultimately have "dlt (rnd (x - y)) e"
      using rounding_not_NaN [OF r] by (rule dlt_below)
    then show ?thesis
      using \<open>b = Finite x\<close> Finite by (simp add: dsub_def)
  next
    case PosInf
    with p \<open>b = Finite x\<close> show ?thesis by simp
  next
    case NegInf
    with s show ?thesis by simp
  next
    case NaN
    with p \<open>b = Finite x\<close> show ?thesis by simp
  qed
next
  case PosInf
  with p s show ?thesis by (cases s) simp_all
next
  case NegInf
  with p s show ?thesis by (cases s; cases e) (simp_all add: dsub_def)
next
  case NaN
  with p show ?thesis by simp
qed






section \<open>The sphere test at concrete inputs\<close>

lemma Epsilon0_bounds: "0 < Epsilon0" "Epsilon0 < 1 / 8192" "1 / 16384 < Epsilon0"
  by (simp_all add: Epsilon0_def)

lemma sphereAhead_hit:
  "fp_Sphere_intersect wide (Finite Epsilon0) sphereAhead rayZ =
     Some \<lparr>distance = Finite 4,
           position = \<lparr>fx = Finite 0, fy = Finite 0, fz = Finite 4\<rparr>,
           normal = \<lparr>fx = Finite 0, fy = Finite 0, fz = Finite (- 1)\<rparr>, inside = False\<rparr>"
  using Epsilon0_bounds
  by (simp add: fp_Sphere_intersect_def sphereAhead_def rayZ_def Let_def fvsub_def dsub_def
      fdot_def flengthSquared_def positionAlong_def fvadd_def fscale_def fnormalised_def
      flength_def fvneg_def wide_small)

lemma sphereBehind_hit:
  "fp_Sphere_intersect wide (Finite Epsilon0) sphereBehind rayZ =
     Some \<lparr>distance = Finite 8,
           position = \<lparr>fx = Finite 0, fy = Finite 0, fz = Finite 8\<rparr>,
           normal = \<lparr>fx = Finite 0, fy = Finite 0, fz = Finite (- 1)\<rparr>, inside = False\<rparr>"
  using Epsilon0_bounds
  by (simp add: fp_Sphere_intersect_def sphereBehind_def rayZ_def Let_def fvsub_def dsub_def
      fdot_def flengthSquared_def positionAlong_def fvadd_def fscale_def fnormalised_def
      flength_def fvneg_def wide_small)


lemma sphereGrazed_miss: "fp_Sphere_intersect wide (Finite Epsilon0) sphereGrazed rayZ = None"
  using Epsilon0_bounds
  by (simp add: fp_Sphere_intersect_def sphereGrazed_def rayZ_def Let_def fvsub_def dsub_def
      fdot_def flengthSquared_def wide_small)


lemma wide_remote: "wide remote = Finite remote"
proof -
  have "(2 :: real) ^ 600 < 2 ^ 1024"
    by (rule power_strict_increasing) simp_all
  moreover have "- ((2 :: real) ^ 1024) < 2 ^ 600"
    by (rule less_trans [of _ 0]) simp_all
  ultimately show ?thesis
    by (simp add: wide_def remote_def)
qed

lemma wide_remote_squared: "wide (remote * remote) = PosInf"
proof -
  have "(2 :: real) ^ 1024 \<le> 2 ^ 1200"
    by (rule power_increasing) simp_all
  also have "(2 :: real) ^ 1200 = 2 ^ 600 * 2 ^ 600"
    by (simp only: power_add [symmetric]) simp
  finally show ?thesis
    by (simp only: wide_def remote_def if_True)
qed

lemma sphereRemote_hit:
  "fp_Sphere_intersect wide (Finite Epsilon0) sphereRemote rayZ =
     Some \<lparr>distance = NaN, position = \<lparr>fx = NaN, fy = NaN, fz = NaN\<rparr>,
           normal = \<lparr>fx = NaN, fy = NaN, fz = NaN\<rparr>, inside = False\<rparr>"
  by (simp add: fp_Sphere_intersect_def sphereRemote_def rayZ_def Let_def fvsub_def dsub_def
      fdot_def flengthSquared_def positionAlong_def fvadd_def fscale_def fnormalised_def
      flength_def fvneg_def wide_small wide_remote wide_remote_squared)

section \<open>Claims about the sphere test\<close>

text \<open>
  C9. For every sphere and every ray the two variants agree: \<^verbatim>\<open>oo::Sphere::intersect\<close>
  returns \<open>True\<close> exactly when \<^verbatim>\<open>fp::Sphere::intersect\<close> returns a hit, the hit it
  writes is then the hit the other returns (distance, position and normal), and when it
  returns \<open>False\<close> it leaves the caller's hit as it was.
\<close>

theorem fp_oo_Sphere_intersect_equiv:
  "oo_Sphere_intersect rnd Epsilon s ray hit0 =
     (case fp_Sphere_intersect rnd Epsilon s ray of
        None \<Rightarrow> (False, hit0)
      | Some h \<Rightarrow> (True, h))"
  by (simp add: oo_Sphere_intersect_def fp_Sphere_intersect_def Let_def)







section \<open>The scene intersector\<close>

lemma intersect_Primitive_eq:
  "intersect_Primitive rnd e ti p ray =
     map_option (\<lambda>h. \<lparr>hit = h, material = material_of p\<rparr>) (hit_of rnd e ti p ray)"
  by (cases p) simp_all

lemma intersect_loop_None:
  "intersect_loop rnd e ti ray ps nearest = None \<longleftrightarrow>
     nearest = None \<and> (\<forall>p \<in> set ps. intersect_Primitive rnd e ti p ray = None)"
  by (induction ps arbitrary: nearest) (auto split: option.splits)

text \<open>
  The loop started with a candidate \<open>n\<close>: either it returns \<open>n\<close>, and no primitive left
  reports a smaller distance, or it returns the record of a primitive that reports a
  distance smaller than that of \<open>n\<close>, smaller than (and not equal to) every distance
  reported before it, and not larger than any reported after it; where a comparison
  with NaN never holds.
\<close>

lemma intersect_loop_from:
  "intersect_loop rnd e ti ray ps (Some n) = Some r \<Longrightarrow>
     (r = n \<and> (\<forall>q \<in> set ps. \<forall>r'. intersect_Primitive rnd e ti q ray = Some r'
                  \<longrightarrow> \<not> dlt (distance (hit r')) (distance (hit n))))
   \<or> (\<exists>pre p post. ps = pre @ p # post \<and> intersect_Primitive rnd e ti p ray = Some r
          \<and> dlt (distance (hit r)) (distance (hit n))
          \<and> (\<forall>q \<in> set pre. \<forall>r'. intersect_Primitive rnd e ti q ray = Some r'
                  \<longrightarrow> \<not> dle (distance (hit r')) (distance (hit r)))
          \<and> (\<forall>q \<in> set post. \<forall>r'. intersect_Primitive rnd e ti q ray = Some r'
                  \<longrightarrow> \<not> dlt (distance (hit r')) (distance (hit r))))"
proof (induction ps arbitrary: n)
  case Nil
  then show ?case by simp
next
  case (Cons p ps)
  let ?I = "\<lambda>q. intersect_Primitive rnd e ti q ray"
  let ?keep = "\<lambda>m. r = m \<and> (\<forall>q \<in> set ps. \<forall>r'. ?I q = Some r'
                  \<longrightarrow> \<not> dlt (distance (hit r')) (distance (hit m)))"
  let ?take = "\<lambda>m. \<exists>pre p' post. ps = pre @ p' # post \<and> ?I p' = Some r
          \<and> dlt (distance (hit r)) (distance (hit m))
          \<and> (\<forall>q \<in> set pre. \<forall>r'. ?I q = Some r'
                  \<longrightarrow> \<not> dle (distance (hit r')) (distance (hit r)))
          \<and> (\<forall>q \<in> set post. \<forall>r'. ?I q = Some r'
                  \<longrightarrow> \<not> dlt (distance (hit r')) (distance (hit r)))"
  show ?case
  proof (cases "?I p")
    case None
    with Cons.prems have run: "intersect_loop rnd e ti ray ps (Some n) = Some r" by simp
    from Cons.IH [OF run] have "?keep n \<or> ?take n" .
    then show ?thesis
    proof
      assume "?keep n"
      with None show ?thesis by simp
    next
      assume "?take n"
      then obtain pre p' post where s: "ps = pre @ p' # post"
        and rest: "?I p' = Some r" "dlt (distance (hit r)) (distance (hit n))"
          "\<forall>q \<in> set pre. \<forall>r'. ?I q = Some r'
                  \<longrightarrow> \<not> dle (distance (hit r')) (distance (hit r))"
          "\<forall>q \<in> set post. \<forall>r'. ?I q = Some r'
                  \<longrightarrow> \<not> dlt (distance (hit r')) (distance (hit r))"
        by blast
      have "p # ps = (p # pre) @ p' # post" using s by simp
      moreover have "\<forall>q \<in> set (p # pre). \<forall>r'. ?I q = Some r'
                  \<longrightarrow> \<not> dle (distance (hit r')) (distance (hit r))"
        using rest(3) None by simp
      ultimately show ?thesis using rest by blast
    qed
  next
    case (Some t)
    show ?thesis
    proof (cases "dlt (distance (hit t)) (distance (hit n))")
      case True
      with Some Cons.prems have run: "intersect_loop rnd e ti ray ps (Some t) = Some r" by simp
      from Cons.IH [OF run] have "?keep t \<or> ?take t" .
      then show ?thesis
      proof
        assume a: "?keep t"
        have "p # ps = [] @ p # ps" by simp
        moreover have "?I p = Some r" using a Some by simp
        moreover have "dlt (distance (hit r)) (distance (hit n))" using a True by simp
        moreover have "\<forall>q \<in> set ps. \<forall>r'. ?I q = Some r'
                  \<longrightarrow> \<not> dlt (distance (hit r')) (distance (hit r))" using a by simp
        ultimately show ?thesis by (metis empty_iff empty_set)
      next
        assume "?take t"
        then obtain pre p' post where s: "ps = pre @ p' # post"
          and rest: "?I p' = Some r" "dlt (distance (hit r)) (distance (hit t))"
            "\<forall>q \<in> set pre. \<forall>r'. ?I q = Some r'
                  \<longrightarrow> \<not> dle (distance (hit r')) (distance (hit r))"
            "\<forall>q \<in> set post. \<forall>r'. ?I q = Some r'
                  \<longrightarrow> \<not> dlt (distance (hit r')) (distance (hit r))"
          by blast
        have "p # ps = (p # pre) @ p' # post" using s by simp
        moreover have "\<not> dle (distance (hit t)) (distance (hit r))"
          using rest(2) by (rule dlt_not_dle)
        then have "\<forall>q \<in> set (p # pre). \<forall>r'. ?I q = Some r'
                  \<longrightarrow> \<not> dle (distance (hit r')) (distance (hit r))"
          using rest(3) Some by simp
        moreover have "dlt (distance (hit r)) (distance (hit n))"
          using rest(2) True by (rule dlt_trans)
        ultimately show ?thesis using rest by blast
      qed
    next
      case False
      with Some Cons.prems have run: "intersect_loop rnd e ti ray ps (Some n) = Some r" by simp
      from Cons.IH [OF run] have "?keep n \<or> ?take n" .
      then show ?thesis
      proof
        assume "?keep n"
        with Some False show ?thesis by simp
      next
        assume "?take n"
        then obtain pre p' post where s: "ps = pre @ p' # post"
          and rest: "?I p' = Some r" "dlt (distance (hit r)) (distance (hit n))"
            "\<forall>q \<in> set pre. \<forall>r'. ?I q = Some r'
                  \<longrightarrow> \<not> dle (distance (hit r')) (distance (hit r))"
            "\<forall>q \<in> set post. \<forall>r'. ?I q = Some r'
                  \<longrightarrow> \<not> dlt (distance (hit r')) (distance (hit r))"
          by blast
        have "p # ps = (p # pre) @ p' # post" using s by simp
        moreover have "\<not> dle (distance (hit t)) (distance (hit r))"
        proof
          assume "dle (distance (hit t)) (distance (hit r))"
          then have "dlt (distance (hit t)) (distance (hit n))"
            using rest(2) by (rule dle_dlt_trans)
          with False show False by simp
        qed
        then have "\<forall>q \<in> set (p # pre). \<forall>r'. ?I q = Some r'
                  \<longrightarrow> \<not> dle (distance (hit r')) (distance (hit r))"
          using rest(3) Some by simp
        ultimately show ?thesis using rest by blast
      qed
    qed
  qed
qed

lemma intersect_loop_first:
  "intersect_loop rnd e ti ray ps None = Some r \<Longrightarrow>
     \<exists>pre p post. ps = pre @ p # post \<and> intersect_Primitive rnd e ti p ray = Some r
          \<and> (\<forall>q \<in> set pre. \<forall>r'. intersect_Primitive rnd e ti q ray = Some r'
                  \<longrightarrow> \<not> dle (distance (hit r')) (distance (hit r)))
          \<and> (\<forall>q \<in> set post. \<forall>r'. intersect_Primitive rnd e ti q ray = Some r'
                  \<longrightarrow> \<not> dlt (distance (hit r')) (distance (hit r)))"
proof (induction ps)
  case Nil
  then show ?case by simp
next
  case (Cons p ps)
  let ?I = "\<lambda>q. intersect_Primitive rnd e ti q ray"
  show ?case
  proof (cases "?I p")
    case None
    with Cons.prems have "intersect_loop rnd e ti ray ps None = Some r" by simp
    from Cons.IH [OF this] obtain pre p' post where s: "ps = pre @ p' # post"
      and rest: "?I p' = Some r"
        "\<forall>q \<in> set pre. \<forall>r'. ?I q = Some r'
                  \<longrightarrow> \<not> dle (distance (hit r')) (distance (hit r))"
        "\<forall>q \<in> set post. \<forall>r'. ?I q = Some r'
                  \<longrightarrow> \<not> dlt (distance (hit r')) (distance (hit r))"
      by blast
    have "p # ps = (p # pre) @ p' # post" using s by simp
    moreover have "\<forall>q \<in> set (p # pre). \<forall>r'. ?I q = Some r'
                  \<longrightarrow> \<not> dle (distance (hit r')) (distance (hit r))"
      using rest(2) None by simp
    ultimately show ?thesis using rest by blast
  next
    case (Some t)
    with Cons.prems have run: "intersect_loop rnd e ti ray ps (Some t) = Some r" by simp
    from intersect_loop_from [OF run] show ?thesis
    proof
      assume a: "r = t \<and> (\<forall>q \<in> set ps. \<forall>r'. ?I q = Some r'
                  \<longrightarrow> \<not> dlt (distance (hit r')) (distance (hit t)))"
      have "p # ps = [] @ p # ps" by simp
      moreover have "?I p = Some r" using a Some by simp
      moreover have "\<forall>q \<in> set ps. \<forall>r'. ?I q = Some r'
                  \<longrightarrow> \<not> dlt (distance (hit r')) (distance (hit r))" using a by simp
      ultimately show ?thesis by (metis empty_iff empty_set)
    next
      assume "\<exists>pre p' post. ps = pre @ p' # post \<and> ?I p' = Some r
          \<and> dlt (distance (hit r)) (distance (hit t))
          \<and> (\<forall>q \<in> set pre. \<forall>r'. ?I q = Some r'
                  \<longrightarrow> \<not> dle (distance (hit r')) (distance (hit r)))
          \<and> (\<forall>q \<in> set post. \<forall>r'. ?I q = Some r'
                  \<longrightarrow> \<not> dlt (distance (hit r')) (distance (hit r)))"
      then obtain pre p' post where s: "ps = pre @ p' # post"
        and rest: "?I p' = Some r" "dlt (distance (hit r)) (distance (hit t))"
          "\<forall>q \<in> set pre. \<forall>r'. ?I q = Some r'
                  \<longrightarrow> \<not> dle (distance (hit r')) (distance (hit r))"
          "\<forall>q \<in> set post. \<forall>r'. ?I q = Some r'
                  \<longrightarrow> \<not> dlt (distance (hit r')) (distance (hit r))"
        by blast
      have "p # ps = (p # pre) @ p' # post" using s by simp
      moreover have "\<not> dle (distance (hit t)) (distance (hit r))"
        using rest(2) by (rule dlt_not_dle)
      then have "\<forall>q \<in> set (p # pre). \<forall>r'. ?I q = Some r'
                  \<longrightarrow> \<not> dle (distance (hit r')) (distance (hit r))"
        using rest(3) Some by simp
      ultimately show ?thesis using rest by blast
    qed
  qed
qed

lemma fp_Sphere_intersect_distance:
  assumes r: "rounding rnd"
    and hit: "fp_Sphere_intersect rnd Epsilon s ray = Some h"
  shows "\<not> dlt (distance h) Epsilon"
proof -
  define b where "b = fdot rnd (fvsub rnd (centre s) (origin ray)) (direction ray)"
  define sq where "sq = dsqrt rnd (discriminant rnd s ray)"
  from hit have guard: "\<not> (dlt (dsub rnd b sq) Epsilon \<and> dlt (dadd rnd b sq) Epsilon)"
    and t: "distance h = (if dlt Epsilon (dsub rnd b sq) then dsub rnd b sq else dadd rnd b sq)"
    by (auto simp: fp_Sphere_intersect_def Let_def discriminant_def b_def sq_def
        split: if_splits)
  have sq0: "\<not> dlt sq (Finite 0)"
    unfolding sq_def by (rule dsqrt_nonneg [OF r])
  show ?thesis
  proof (cases "dlt Epsilon (dsub rnd b sq)")
    case True
    then show ?thesis by (simp add: t dlt_asym)
  next
    case False
    have "\<not> dlt (dadd rnd b sq) Epsilon"
      using minus_below_plus [OF r sq0] guard by blast
    with False show ?thesis by (simp add: t)
  qed
qed

lemma tieScene_hit:
  "intersect_Scene wide (Finite Epsilon0) (\<lambda>triangle ray. None) tieScene rayZ =
     Some \<lparr>hit = \<lparr>distance = Finite 4,
                 position = \<lparr>fx = Finite 0, fy = Finite 0, fz = Finite 4\<rparr>,
                 normal = \<lparr>fx = Finite 0, fy = Finite 0, fz = Finite (- 1)\<rparr>,
                 inside = False\<rparr>,
           material = lamp\<rparr>"
  by (simp add: intersect_Scene_def tieScene_def sphereAhead_hit sphereBehind_hit)

lemma lampScene_hit:
  "intersect_Scene wide (Finite Epsilon0) (\<lambda>triangle ray. None) lampScene rayZ =
     Some \<lparr>hit = \<lparr>distance = Finite 4,
                 position = \<lparr>fx = Finite 0, fy = Finite 0, fz = Finite 4\<rparr>,
                 normal = \<lparr>fx = Finite 0, fy = Finite 0, fz = Finite (- 1)\<rparr>,
                 inside = False\<rparr>,
           material = lamp\<rparr>"
  by (simp add: intersect_Scene_def lampScene_def sphereAhead_hit)

lemma remoteScene_hit:
  "intersect_Scene wide (Finite Epsilon0) (\<lambda>triangle ray. None) remoteScene rayZ =
     Some \<lparr>hit = \<lparr>distance = NaN, position = \<lparr>fx = NaN, fy = NaN, fz = NaN\<rparr>,
                 normal = \<lparr>fx = NaN, fy = NaN, fz = NaN\<rparr>, inside = False\<rparr>,
           material = matte\<rparr>"
  by (simp add: intersect_Scene_def remoteScene_def sphereAhead_hit sphereRemote_hit)

text \<open>
  C1, as amended. For every scene and ray, whatever the rounding, the scene
  intersector returns no result exactly when no primitive reports a hit; and a result
  it returns is the hit of one of the scene's primitives, paired with that primitive's
  material, such that no primitive reports a hit at a smaller distance. When the
  returned distance is not NaN, it is the smallest of the reported distances that are
  not NaN. It is not below the epsilon threshold when no triangle reports a distance
  below it.
\<close>

theorem intersect_Scene_nearest:
  "(intersect_Scene rnd Epsilon triangle_intersect scene ray = None \<longleftrightarrow>
      (\<forall>p \<in> set (primitives scene). hit_of rnd Epsilon triangle_intersect p ray = None))
   \<and> (\<forall>r. intersect_Scene rnd Epsilon triangle_intersect scene ray = Some r \<longrightarrow>
          (\<exists>p \<in> set (primitives scene).
              hit_of rnd Epsilon triangle_intersect p ray = Some (hit r)
              \<and> material r = material_of p)
          \<and> (\<forall>p \<in> set (primitives scene). \<forall>h.
                hit_of rnd Epsilon triangle_intersect p ray = Some h
                \<longrightarrow> \<not> dlt (distance h) (distance (hit r)))
          \<and> (distance (hit r) \<noteq> NaN \<longrightarrow>
               (\<forall>p \<in> set (primitives scene). \<forall>h.
                  hit_of rnd Epsilon triangle_intersect p ray = Some h \<and> distance h \<noteq> NaN
                  \<longrightarrow> dle (distance (hit r)) (distance h)))
          \<and> (rounding rnd
               \<and> (\<forall>triangle h. triangle_intersect triangle ray = Some h
                     \<longrightarrow> \<not> dlt (distance h) Epsilon)
               \<longrightarrow> \<not> dlt (distance (hit r)) Epsilon))"
proof (intro conjI allI impI)
  show "intersect_Scene rnd Epsilon triangle_intersect scene ray = None \<longleftrightarrow>
      (\<forall>p \<in> set (primitives scene). hit_of rnd Epsilon triangle_intersect p ray = None)"
    by (simp add: intersect_Scene_def intersect_loop_None intersect_Primitive_eq)
next
  fix r
  assume "intersect_Scene rnd Epsilon triangle_intersect scene ray = Some r"
  then have run:
    "intersect_loop rnd Epsilon triangle_intersect ray (primitives scene) None = Some r"
    by (simp add: intersect_Scene_def)
  let ?I = "\<lambda>q. intersect_Primitive rnd Epsilon triangle_intersect q ray"
  from intersect_loop_first [OF run] obtain pre p post
    where s: "primitives scene = pre @ p # post"
      and p: "?I p = Some r"
      and before: "\<forall>q \<in> set pre. \<forall>r'. ?I q = Some r'
                  \<longrightarrow> \<not> dle (distance (hit r')) (distance (hit r))"
      and after: "\<forall>q \<in> set post. \<forall>r'. ?I q = Some r'
                  \<longrightarrow> \<not> dlt (distance (hit r')) (distance (hit r))"
    by blast
  have mem: "p \<in> set (primitives scene)"
    using s by simp
  have ph: "hit_of rnd Epsilon triangle_intersect p ray = Some (hit r)"
    and pm: "material r = material_of p"
    using p by (auto simp: intersect_Primitive_eq)
  show "\<exists>p \<in> set (primitives scene).
          hit_of rnd Epsilon triangle_intersect p ray = Some (hit r)
          \<and> material r = material_of p"
    using mem ph pm by blast
  show least: "\<forall>p \<in> set (primitives scene). \<forall>h.
          hit_of rnd Epsilon triangle_intersect p ray = Some h
          \<longrightarrow> \<not> dlt (distance h) (distance (hit r))"
  proof (intro ballI allI impI)
    fix q h
    assume q: "q \<in> set (primitives scene)"
      and h: "hit_of rnd Epsilon triangle_intersect q ray = Some h"
    have ir: "?I q = Some \<lparr>hit = h, material = material_of q\<rparr>"
      using h by (simp add: intersect_Primitive_eq)
    from q s consider "q \<in> set pre" | "q = p" | "q \<in> set post"
      by auto
    then show "\<not> dlt (distance h) (distance (hit r))"
    proof cases
      case 1
      with before ir
      have "\<not> dle (distance (hit \<lparr>hit = h, material = material_of q\<rparr>)) (distance (hit r))"
        by blast
      then show ?thesis by (simp add: dle_def)
    next
      case 2
      with ph h show ?thesis by (simp add: dlt_irrefl)
    next
      case 3
      with after ir
      have "\<not> dlt (distance (hit \<lparr>hit = h, material = material_of q\<rparr>)) (distance (hit r))"
        by blast
      then show ?thesis by simp
    qed
  qed
  show "\<forall>p \<in> set (primitives scene). \<forall>h.
          hit_of rnd Epsilon triangle_intersect p ray = Some h \<and> distance h \<noteq> NaN
          \<longrightarrow> dle (distance (hit r)) (distance h)"
    if "distance (hit r) \<noteq> NaN"
    using least that by (auto intro: not_dlt_dle)
  assume pos: "rounding rnd
      \<and> (\<forall>triangle h. triangle_intersect triangle ray = Some h
            \<longrightarrow> \<not> dlt (distance h) Epsilon)"
  show "\<not> dlt (distance (hit r)) Epsilon"
  proof (cases p)
    case (TrianglePrimitive triangle mat)
    with ph pos show ?thesis by simp
  next
    case (SpherePrimitive sphere mat)
    with ph have sh: "fp_Sphere_intersect rnd Epsilon sphere ray = Some (hit r)" by simp
    from pos have "rounding rnd" by simp
    then show ?thesis using sh by (rule fp_Sphere_intersect_distance)
  qed
qed

theorem intersect_Scene_nearest_witness:
  "intersect_Scene wide (Finite Epsilon0) (\<lambda>triangle ray. None) tieScene rayZ =
     Some \<lparr>hit = \<lparr>distance = Finite 4,
                 position = \<lparr>fx = Finite 0, fy = Finite 0, fz = Finite 4\<rparr>,
                 normal = \<lparr>fx = Finite 0, fy = Finite 0, fz = Finite (- 1)\<rparr>,
                 inside = False\<rparr>,
           material = lamp\<rparr>
   \<and> (\<exists>p \<in> set (primitives tieScene).
         hit_of wide (Finite Epsilon0) (\<lambda>triangle ray. None) p rayZ
           = Some \<lparr>distance = Finite 4,
                   position = \<lparr>fx = Finite 0, fy = Finite 0, fz = Finite 4\<rparr>,
                   normal = \<lparr>fx = Finite 0, fy = Finite 0, fz = Finite (- 1)\<rparr>,
                   inside = False\<rparr>
         \<and> lamp = material_of p)
   \<and> SpherePrimitive sphereBehind matte \<in> set (primitives tieScene)
   \<and> hit_of wide (Finite Epsilon0) (\<lambda>triangle ray. None) (SpherePrimitive sphereBehind matte)
       rayZ
       = Some \<lparr>distance = Finite 8,
               position = \<lparr>fx = Finite 0, fy = Finite 0, fz = Finite 8\<rparr>,
               normal = \<lparr>fx = Finite 0, fy = Finite 0, fz = Finite (- 1)\<rparr>, inside = False\<rparr>
   \<and> \<not> dlt (Finite 8) (Finite 4)
   \<and> dle (Finite 4) (Finite 8)
   \<and> rounding wide
   \<and> \<not> dlt (Finite 4) (Finite Epsilon0)"
  using intersect_Scene_nearest
      [of wide "Finite Epsilon0" "\<lambda>triangle ray. None" tieScene rayZ]
    tieScene_hit sphereBehind_hit rounding_wide Epsilon0_bounds
  by (simp add: tieScene_def dle_def)

text \<open>
  C1 as stated fails: the discriminant of the ray from the origin along \<open>z\<close> against
  the unit sphere centred at \<open>(0, 0, 2\<^sup>6\<^sup>0\<^sup>0)\<close> overflows to NaN, which is not negative, and
  the test reports a hit at the distance NaN. With that sphere first in the scene, the
  unit sphere centred at \<open>(0, 0, 5)\<close>, hit at distance 4, never replaces it, since
  \<^verbatim>\<open>4 < NaN\<close> is false: the intersector returns the record with the distance NaN, not
  the nearest hit. (Every intermediate result here is a double or overflows, so
  binary64 computes the same.)
\<close>

theorem intersect_Scene_keeps_NaN:
  "primitives remoteScene
     = [SpherePrimitive sphereRemote matte, SpherePrimitive sphereAhead lamp]
   \<and> hit_of wide (Finite Epsilon0) (\<lambda>triangle ray. None) (SpherePrimitive sphereAhead lamp)
       rayZ
       = Some \<lparr>distance = Finite 4,
               position = \<lparr>fx = Finite 0, fy = Finite 0, fz = Finite 4\<rparr>,
               normal = \<lparr>fx = Finite 0, fy = Finite 0, fz = Finite (- 1)\<rparr>, inside = False\<rparr>
   \<and> intersect_Scene wide (Finite Epsilon0) (\<lambda>triangle ray. None) remoteScene rayZ =
       Some \<lparr>hit = \<lparr>distance = NaN, position = \<lparr>fx = NaN, fy = NaN, fz = NaN\<rparr>,
                   normal = \<lparr>fx = NaN, fy = NaN, fz = NaN\<rparr>, inside = False\<rparr>,
             material = matte\<rparr>"
  using remoteScene_hit sphereAhead_hit by (simp add: remoteScene_def)



section \<open>The radiance estimator\<close>

lemma radiance_cutoff:
  "maxDepth renderParams \<le> depth \<Longrightarrow>
     radiance tk scene rng ray depth renderParams = Inr (vzero, rng)"
  by (subst radiance.simps) (simp add: Let_def)

lemma vmul_vzero: "vmul a vzero = vzero"
  by (simp add: vmul_def vzero_def)

lemma vadd_vzero: "vadd a vzero = a"
  by (simp add: vadd_def vzero_def)

lemma scale_vzero: "scale vzero k = vzero"
  by (simp add: scale_def vzero_def)

lemma singleRay_cutoff:
  "maxDepth renderParams \<le> depth \<Longrightarrow>
     singleRay tk scene rng intersectionRecord ray basis u v depth renderParams
       = Inr (vzero, snd (unit_draw tk rng))"
  by (subst singleRay.simps) (simp add: Let_def radiance_cutoff vmul_vzero)

lemma accumulate_cutoff:
  "maxDepth renderParams \<le> depth \<Longrightarrow>
     \<exists>rng'. accumulate tk scene rng intersectionRecord ray basis numUSamples numVSamples depth
              renderParams cells acc = Inr (acc, rng')"
proof (induction cells arbitrary: rng)
  case Nil
  then show ?case by simp
next
  case (Cons cell cells)
  obtain v u where cell: "cell = (v, u)"
    by (cases cell)
  show ?case
    using Cons.IH [OF Cons.prems]
    by (simp add: cell Let_def singleRay_cutoff [OF Cons.prems] vadd_vzero)
qed

lemma grazedScene_miss:
  "\<forall>p \<in> set (primitives grazedScene).
     hit_of (rounds toolkit0) (epsilon toolkit0) (triangleTest toolkit0) p rayZ = None"
  by (simp add: grazedScene_def toolkit0_def sphereGrazed_miss)

lemma lampScene_hit_toolkit0:
  "intersect_Scene (rounds toolkit0) (epsilon toolkit0) (triangleTest toolkit0) lampScene rayZ =
     Some \<lparr>hit = \<lparr>distance = Finite 4,
                  position = \<lparr>fx = Finite 0, fy = Finite 0, fz = Finite 4\<rparr>,
                  normal = \<lparr>fx = Finite 0, fy = Finite 0, fz = Finite (- 1)\<rparr>,
                  inside = False\<rparr>,
           material = lamp\<rparr>"
  using lampScene_hit by (simp add: toolkit0_def)

text \<open>
  C2, as amended. For every scene and every ray that misses every primitive of the
  scene, the radiance estimate is the scene's environment colour (and the generator is
  left as it was) at every depth below \<^verbatim>\<open>maxDepth\<close>, for any other render parameters.
  At a depth of \<^verbatim>\<open>maxDepth\<close> or more the estimate is black.
\<close>

theorem radiance_miss_environment:
  assumes "depth < maxDepth renderParams"
    and "\<forall>p \<in> set (primitives scene).
           hit_of (rounds tk) (epsilon tk) (triangleTest tk) p ray = None"
  shows "radiance tk scene rng ray depth renderParams = Inr (environment scene, rng)"
proof -
  have "intersect_Scene (rounds tk) (epsilon tk) (triangleTest tk) scene ray = None"
    using assms(2) by (simp add: intersect_Scene_def intersect_loop_None intersect_Primitive_eq)
  then show ?thesis
    using assms(1) by (subst radiance.simps) (simp add: Let_def)
qed

theorem radiance_miss_environment_witness:
  "0 < maxDepth params0
   \<and> primitives grazedScene = [SpherePrimitive sphereGrazed lamp]
   \<and> hit_of (rounds toolkit0) (epsilon toolkit0) (triangleTest toolkit0)
       (SpherePrimitive sphereGrazed lamp) rayZ = None
   \<and> radiance toolkit0 grazedScene 0 rayZ 0 params0 = Inr (environment grazedScene, 0)"
proof -
  have d: "0 < maxDepth params0"
    by (simp add: params0_def)
  have "hit_of (rounds toolkit0) (epsilon toolkit0) (triangleTest toolkit0)
          (SpherePrimitive sphereGrazed lamp) rayZ = None"
    using grazedScene_miss by (simp add: grazedScene_def)
  then show ?thesis
    using radiance_miss_environment [OF d grazedScene_miss] d by (simp add: grazedScene_def)
qed

text \<open>
  C2 as stated fails: at depth 1 with \<^verbatim>\<open>maxDepth\<close> 1, a ray that misses the only
  sphere of a scene with a grey environment gets black, not the environment colour.
\<close>

theorem radiance_miss_at_cutoff_black:
  "primitives grazedScene = [SpherePrimitive sphereGrazed lamp]
   \<and> hit_of (rounds toolkit0) (epsilon toolkit0) (triangleTest toolkit0)
       (SpherePrimitive sphereGrazed lamp) rayZ = None
   \<and> radiance toolkit0 grazedScene 0 rayZ 1 params0 = Inr (vzero, 0)
   \<and> vzero \<noteq> environment grazedScene"
proof -
  have "radiance toolkit0 grazedScene 0 rayZ 1 params0 = Inr (vzero, 0)"
    by (rule radiance_cutoff) (simp add: params0_def)
  moreover have "vzero \<noteq> environment grazedScene"
    by (simp add: vzero_def grazedScene_def grey_def)
  moreover have "hit_of (rounds toolkit0) (epsilon toolkit0) (triangleTest toolkit0)
      (SpherePrimitive sphereGrazed lamp) rayZ = None"
    using grazedScene_miss by (simp add: grazedScene_def)
  ultimately show ?thesis
    by (simp add: grazedScene_def)
qed




text \<open>
  C3, as amended. For a scene whose only primitive is a sphere, and a ray that hits
  it, the estimator at depth 0 with \<^verbatim>\<open>maxDepth\<close> 1 and preview off returns exactly the
  emission colour of the sphere's material, for every generator state and every
  stratification grid of at least one cell in each direction whose number of cells fits
  an \<^verbatim>\<open>int\<close>. (This holds whatever the material's reflectivity.)
\<close>

theorem radiance_emissive_sphere:
  assumes scene: "primitives scene = [SpherePrimitive sphere mat]"
    and hits: "fp_Sphere_intersect (rounds tk) (epsilon tk) sphere ray = Some h"
    and depth: "maxDepth renderParams = 1"
    and lit: "\<not> preview renderParams"
    and u: "1 \<le> firstBounceUSamples renderParams"
    and v: "1 \<le> firstBounceVSamples renderParams"
    and cells: "firstBounceUSamples renderParams * firstBounceVSamples renderParams \<le> INT_MAX"
  shows "\<exists>rng'. radiance tk scene rng ray 0 renderParams = Inr (emission mat, rng')"
proof -
  have ir: "intersect_Scene (rounds tk) (epsilon tk) (triangleTest tk) scene ray
              = Some \<lparr>hit = h, material = mat\<rparr>"
    by (simp add: intersect_Scene_def scene hits)
  have cut: "maxDepth renderParams \<le> 1"
    by (simp add: depth)
  have "\<exists>rng'.
    accumulate tk scene rng \<lparr>hit = h, material = mat\<rparr> ray (fromZ tk (normal h))
       (firstBounceUSamples renderParams) (firstBounceVSamples renderParams) 1
       renderParams
       (List.product [0..firstBounceVSamples renderParams - 1]
          [0..firstBounceUSamples renderParams - 1]) vzero = Inr (vzero, rng')"
    by (rule accumulate_cutoff [OF cut])
  then obtain rng' where acc:
    "accumulate tk scene rng \<lparr>hit = h, material = mat\<rparr> ray (fromZ tk (normal h))
       (firstBounceUSamples renderParams) (firstBounceVSamples renderParams) 1
       renderParams
       (List.product [0..firstBounceVSamples renderParams - 1]
          [0..firstBounceUSamples renderParams - 1]) vzero = Inr (vzero, rng')"
    by blast
  have nz: "firstBounceUSamples renderParams * firstBounceVSamples renderParams \<noteq> 0"
    using u v by simp
  have "radiance tk scene rng ray 0 renderParams = Inr (emission mat, rng')"
    using u v cells nz lit
    by (subst radiance.simps) (simp add: Let_def ir depth acc scale_vzero vadd_vzero)
  then show ?thesis by blast
qed

theorem radiance_emissive_sphere_witness:
  "primitives lampScene = [SpherePrimitive sphereAhead lamp]
   \<and> fp_Sphere_intersect (rounds toolkit0) (epsilon toolkit0) sphereAhead rayZ =
       Some \<lparr>distance = Finite 4,
             position = \<lparr>fx = Finite 0, fy = Finite 0, fz = Finite 4\<rparr>,
             normal = \<lparr>fx = Finite 0, fy = Finite 0, fz = Finite (- 1)\<rparr>,
             inside = False\<rparr>
   \<and> maxDepth params0 = 1 \<and> \<not> preview params0
   \<and> 1 \<le> firstBounceUSamples params0 \<and> 1 \<le> firstBounceVSamples params0
   \<and> firstBounceUSamples params0 * firstBounceVSamples params0 \<le> INT_MAX
   \<and> (\<exists>rng'. radiance toolkit0 lampScene 0 rayZ 0 params0 = Inr (emission lamp, rng'))"
proof -
  have scene: "primitives lampScene = [SpherePrimitive sphereAhead lamp]"
    by (simp add: lampScene_def)
  have hits: "fp_Sphere_intersect (rounds toolkit0) (epsilon toolkit0) sphereAhead rayZ =
       Some \<lparr>distance = Finite 4,
             position = \<lparr>fx = Finite 0, fy = Finite 0, fz = Finite 4\<rparr>,
             normal = \<lparr>fx = Finite 0, fy = Finite 0, fz = Finite (- 1)\<rparr>,
             inside = False\<rparr>"
    using sphereAhead_hit by (simp add: toolkit0_def)
  have depth: "maxDepth params0 = 1" and lit: "\<not> preview params0"
    and u: "1 \<le> firstBounceUSamples params0" and v: "1 \<le> firstBounceVSamples params0"
    and cells: "firstBounceUSamples params0 * firstBounceVSamples params0 \<le> INT_MAX"
    by (simp_all add: params0_def INT_MAX_def)
  show ?thesis
    using radiance_emissive_sphere [OF scene hits depth lit u v cells]
      scene hits depth lit u v cells
    by simp
qed

text \<open>
  C3 as stated fails: with a stratification grid of 0 by 1 cells no sample is taken and
  the sum of the samples, the zero vector, is divided by the number of cells, 0: the
  result has no finite components, and is not the lamp's emission colour.
\<close>

theorem radiance_empty_grid_not_emission:
  "primitives lampScene = [SpherePrimitive sphereAhead lamp]
   \<and> fp_Sphere_intersect (rounds toolkit0) (epsilon toolkit0) sphereAhead rayZ =
       Some \<lparr>distance = Finite 4,
             position = \<lparr>fx = Finite 0, fy = Finite 0, fz = Finite 4\<rparr>,
             normal = \<lparr>fx = Finite 0, fy = Finite 0, fz = Finite (- 1)\<rparr>,
             inside = False\<rparr>
   \<and> maxDepth (params0\<lparr>firstBounceUSamples := 0\<rparr>) = 1
   \<and> radiance toolkit0 lampScene 0 rayZ 0 (params0\<lparr>firstBounceUSamples := 0\<rparr>)
       = Inl NonFinite"
proof -
  have "radiance toolkit0 lampScene 0 rayZ 0 (params0\<lparr>firstBounceUSamples := 0\<rparr>)
       = Inl NonFinite"
    by (subst radiance.simps)
      (simp add: Let_def lampScene_hit_toolkit0 params0_def INT_MAX_def)
  moreover have "fp_Sphere_intersect (rounds toolkit0) (epsilon toolkit0) sphereAhead rayZ =
       Some \<lparr>distance = Finite 4,
             position = \<lparr>fx = Finite 0, fy = Finite 0, fz = Finite 4\<rparr>,
             normal = \<lparr>fx = Finite 0, fy = Finite 0, fz = Finite (- 1)\<rparr>,
             inside = False\<rparr>"
    using sphereAhead_hit by (simp add: toolkit0_def)
  ultimately show ?thesis
    by (simp add: lampScene_def params0_def)
qed

section \<open>The parallel sample scheduler\<close>

lemma launch_loop_length:
  "length (launch_loop frame ss bound futures) = length futures + nat (bound - ss)"
proof (induction frame ss bound futures rule: launch_loop.induct)
  case (1 frame ss bound futures)
  show ?case
  proof (cases "ss < bound")
    case True
    with "1.IH" show ?thesis
      by (subst launch_loop.simps) simp
  next
    case False
    then show ?thesis
      by (subst launch_loop.simps) simp
  qed
qed

lemma join_loop_numDone: "numDone (join_loop futures st) = numDone st + length futures"
  by (induction futures arbitrary: st) simp_all

lemma join_loop_batches: "batches (join_loop futures st) = batches st"
  by (induction futures arbitrary: st) simp_all

lemma join_loop_updates:
  "map fst (updates (join_loop futures st)) =
     map fst (updates st) @ [Suc (numDone st)..<Suc (numDone st + length futures)]"
proof (induction futures arbitrary: st)
  case Nil
  show ?case by simp
next
  case (Cons future rest)
  have "[Suc (numDone st)..<Suc (numDone st + length (future # rest))]
      = Suc (numDone st) # [Suc (Suc (numDone st))..<Suc (Suc (numDone st) + length rest)]"
    by (simp add: upt_conv_Cons del: upt_Suc)
  then show ?case
    by (simp add: Cons.IH del: upt_Suc)
qed

lemma join_loop_progress:
  "progress (join_loop futures st) =
     progress st @ [Suc (numDone st)..<Suc (numDone st + length futures)]"
proof (induction futures arbitrary: st)
  case Nil
  show ?case by simp
next
  case (Cons future rest)
  have "[Suc (numDone st)..<Suc (numDone st + length (future # rest))]
      = Suc (numDone st) # [Suc (Suc (numDone st))..<Suc (Suc (numDone st) + length rest)]"
    by (simp add: upt_conv_Cons del: upt_Suc)
  then show ?case
    by (simp add: Cons.IH del: upt_Suc)
qed

text \<open>The number of batches that are left: the ceiling of \<open>(n - s) / m\<close>.\<close>

lemma ceil_div_pos: "0 < (m::int) \<Longrightarrow> s < n \<Longrightarrow> 1 \<le> - ((- (n - s)) div m)"
proof -
  assume "0 < m" "s < n"
  then have "(- (n - s)) div m < 0"
    by (simp add: div_neg_pos_less0)
  then show ?thesis by simp
qed

lemma ceil_div_nonpos: "0 < (m::int) \<Longrightarrow> n \<le> s \<Longrightarrow> - ((- (n - s)) div m) \<le> 0"
  by (simp add: pos_imp_zdiv_nonneg_iff)

lemma ceil_div_step:
  "0 < (m::int) \<Longrightarrow> - ((- (n - (s + m))) div m) = - ((- (n - s)) div m) - 1"
proof -
  assume m: "0 < m"
  have "- (n - (s + m)) = - (n - s) + m"
    by simp
  then have "(- (n - (s + m))) div m = (- (n - s) + m) div m"
    by (simp only:)
  also have "\<dots> = (- (n - s)) div m + 1"
    using div_add_self2 [of m "- (n - s)"] m by simp
  finally show ?thesis by simp
qed

lemma render_loop_runs:
  assumes m: "1 \<le> maxCpus renderParams"
    and s0: "0 \<le> sample"
    and fits: "sample < samplesPerPixel renderParams \<longrightarrow>
        sample + maxCpus renderParams
          * (- ((- (samplesPerPixel renderParams - sample)) div maxCpus renderParams))
        \<le> INT_MAX"
  shows "\<exists>st' B. render_loop renderParams frame sample st = Some (Inr st')
      \<and> batches st' = batches st @ B
      \<and> int (length B) = max 0 (- ((- (samplesPerPixel renderParams - sample))
                                     div maxCpus renderParams))
      \<and> (\<forall>n \<in> set B. 1 \<le> n \<and> int n \<le> maxCpus renderParams)
      \<and> sum_list B = nat (samplesPerPixel renderParams - sample)
      \<and> numDone st' = numDone st + nat (samplesPerPixel renderParams - sample)
      \<and> map fst (updates st') = map fst (updates st)
           @ [Suc (numDone st)..<
              Suc (numDone st + nat (samplesPerPixel renderParams - sample))]
      \<and> progress st' = progress st
           @ [Suc (numDone st)..<
              Suc (numDone st + nat (samplesPerPixel renderParams - sample))]"
  using s0 fits
proof (induction "nat (samplesPerPixel renderParams - sample)" arbitrary: sample st
    rule: less_induct)
  case less
  let ?n = "samplesPerPixel renderParams"
  let ?c = "maxCpus renderParams"
  define q where "q = - ((- (?n - sample)) div ?c)"
  define q' where "q' = - ((- (?n - (sample + ?c))) div ?c)"
  have c: "0 < ?c" using m by simp
  show ?case
  proof (cases "sample < ?n")
    case False
    have "render_loop renderParams frame sample st = Some (Inr st)"
      using False by (subst render_loop.simps) simp
    moreover have "q \<le> 0"
      unfolding q_def using c False by (intro ceil_div_nonpos) simp_all
    then have "max 0 q = 0"
      by simp
    ultimately show ?thesis
      using False unfolding q_def by simp
  next
    case True
    have ge1: "1 \<le> q"
      unfolding q_def using c True by (rule ceil_div_pos)
    have le: "sample + ?c * q \<le> INT_MAX"
      using less.prems(2) True unfolding q_def by simp
    have "?c * 1 \<le> ?c * q"
      using c ge1 by (intro mult_left_mono) simp_all
    then have nover: "sample + ?c \<le> INT_MAX"
      using le by simp
    have nunder: "\<not> sample + ?c < INT_MIN"
      using less.prems(1) c by (simp add: INT_MIN_def)
    define futures where "futures = launch_loop frame sample (min ?n (sample + ?c)) []"
    define k where "k = length futures"
    have k: "int k = min ?n (sample + ?c) - sample"
      using True c by (simp add: k_def futures_def launch_loop_length)
    have k1: "1 \<le> k" and kc: "int k \<le> ?c"
      using k True c by auto
    define st1 where "st1 = join_loop futures (st\<lparr>batches := batches st @ [k]\<rparr>)"
    have unfold: "render_loop renderParams frame sample st
        = render_loop renderParams frame (sample + ?c) st1"
      using True nover nunder
      by (subst render_loop.simps)
        (simp add: futures_def [symmetric] k_def [symmetric] st1_def [symmetric])
    have meas: "nat (?n - (sample + ?c)) < nat (?n - sample)"
      using True c by simp
    have s0': "0 \<le> sample + ?c"
      using less.prems(1) c by simp
    have step: "q' = q - 1"
      unfolding q_def q'_def using c by (rule ceil_div_step)
    have "?c * q' = ?c * q - ?c"
      by (simp add: step right_diff_distrib)
    then have "sample + ?c + ?c * q' \<le> INT_MAX"
      using le by simp
    then have fits': "sample + ?c < ?n \<longrightarrow>
        sample + ?c + ?c * (- ((- (?n - (sample + ?c))) div ?c)) \<le> INT_MAX"
      unfolding q'_def by simp
    from less.hyps [OF meas s0' fits', of st1]
    obtain st' B where run: "render_loop renderParams frame (sample + ?c) st1 = Some (Inr st')"
      and b: "batches st' = batches st1 @ B"
      and lB: "int (length B) = max 0 q'"
      and bB: "\<forall>n \<in> set B. 1 \<le> n \<and> int n \<le> ?c"
      and sB: "sum_list B = nat (?n - (sample + ?c))"
      and nd: "numDone st' = numDone st1 + nat (?n - (sample + ?c))"
      and up: "map fst (updates st') = map fst (updates st1)
           @ [Suc (numDone st1)..<Suc (numDone st1 + nat (?n - (sample + ?c)))]"
      and pr: "progress st' = progress st1
           @ [Suc (numDone st1)..<Suc (numDone st1 + nat (?n - (sample + ?c)))]"
      unfolding q'_def by blast
    have st1_batches: "batches st1 = batches st @ [k]"
      by (simp add: st1_def join_loop_batches)
    have st1_numDone: "numDone st1 = numDone st + k"
      by (simp add: st1_def join_loop_numDone k_def)
    have st1_updates: "map fst (updates st1) = map fst (updates st)
        @ [Suc (numDone st)..<Suc (numDone st + k)]"
      by (simp add: st1_def join_loop_updates k_def del: upt_Suc)
    have st1_progress: "progress st1 = progress st @ [Suc (numDone st)..<Suc (numDone st + k)]"
      by (simp add: st1_def join_loop_progress k_def del: upt_Suc)
    have total: "k + nat (?n - (sample + ?c)) = nat (?n - sample)"
      using k True c by (auto simp: min_def split: if_splits)
    have r1: "render_loop renderParams frame sample st = Some (Inr st')"
      using unfold run by simp
    have r2: "batches st' = batches st @ (k # B)"
      using b st1_batches by simp
    have r3: "int (length (k # B)) = max 0 q"
      using lB step ge1 by simp
    have r4: "\<forall>n \<in> set (k # B). 1 \<le> n \<and> int n \<le> ?c"
      using bB k1 kc by simp
    have r5: "sum_list (k # B) = nat (?n - sample)"
      using sB total by simp
    have r6: "numDone st' = numDone st + nat (?n - sample)"
      using nd st1_numDone total by simp
    have split: "[Suc (numDone st)..<Suc (numDone st + nat (?n - sample))]
        = [Suc (numDone st)..<Suc (numDone st + k)]
          @ [Suc (numDone st + k)..<Suc (numDone st + k + nat (?n - (sample + ?c)))]"
    proof -
      have e1: "Suc (numDone st + nat (?n - sample))
          = Suc (numDone st + k) + nat (?n - (sample + ?c))"
        using total by simp
      have e2: "Suc (numDone st + k + nat (?n - (sample + ?c)))
          = Suc (numDone st + k) + nat (?n - (sample + ?c))"
        by simp
      have le: "Suc (numDone st) \<le> Suc (numDone st + k)"
        by simp
      show ?thesis
        unfolding e1 e2 using le by (rule upt_add_eq_append)
    qed
    have r7: "map fst (updates st') = map fst (updates st)
           @ [Suc (numDone st)..<Suc (numDone st + nat (?n - sample))]"
      using up st1_updates st1_numDone split by (simp del: upt_Suc)
    have r8: "progress st' = progress st
           @ [Suc (numDone st)..<Suc (numDone st + nat (?n - sample))]"
      using pr st1_progress st1_numDone split by (simp del: upt_Suc)
    from r1 r2 r3 r4 r5 r6 r7 r8 show ?thesis
      unfolding q_def by blast
  qed
qed

lemma render_loop_overflows:
  assumes m: "1 \<le> maxCpus renderParams"
    and s0: "0 \<le> sample"
    and lt: "sample < samplesPerPixel renderParams"
    and over: "INT_MAX < sample + maxCpus renderParams
          * (- ((- (samplesPerPixel renderParams - sample)) div maxCpus renderParams))"
  shows "render_loop renderParams frame sample st = Some (Inl IntOverflow)"
  using s0 lt over
proof (induction "nat (samplesPerPixel renderParams - sample)" arbitrary: sample st
    rule: less_induct)
  case less
  let ?n = "samplesPerPixel renderParams"
  let ?c = "maxCpus renderParams"
  define q where "q = - ((- (?n - sample)) div ?c)"
  define q' where "q' = - ((- (?n - (sample + ?c))) div ?c)"
  have c: "0 < ?c" using m by simp
  have lt: "sample < ?n" using less.prems(2) .
  have over: "INT_MAX < sample + ?c * q"
    using less.prems(3) unfolding q_def .
  show ?case
  proof (cases "INT_MAX < sample + ?c")
    case True
    then show ?thesis
      using lt by (subst render_loop.simps) simp
  next
    case False
    have nunder: "\<not> sample + ?c < INT_MIN"
      using less.prems(1) c by (simp add: INT_MIN_def)
    have step: "q' = q - 1"
      unfolding q_def q'_def using c by (rule ceil_div_step)
    have "?c * q' = ?c * q - ?c"
      by (simp add: step right_diff_distrib)
    then have over': "INT_MAX < sample + ?c + ?c * q'"
      using over by simp
    have lt': "sample + ?c < ?n"
    proof (rule ccontr)
      assume "\<not> sample + ?c < ?n"
      then have "q' \<le> 0"
        unfolding q'_def using c by (intro ceil_div_nonpos) simp_all
      then have "?c * q' \<le> 0"
        using c by (simp add: mult_le_0_iff)
      with over' False show False by simp
    qed
    have meas: "nat (?n - (sample + ?c)) < nat (?n - sample)"
      using lt c by simp
    have s0': "0 \<le> sample + ?c"
      using less.prems(1) c by simp
    have over'': "INT_MAX < sample + ?c + ?c * (- ((- (?n - (sample + ?c))) div ?c))"
      using over' unfolding q'_def .
    have "render_loop renderParams frame (sample + ?c)
            (join_loop (launch_loop frame sample (min ?n (sample + ?c)) [])
               (st\<lparr>batches := batches st @
                    [length (launch_loop frame sample (min ?n (sample + ?c)) [])]\<rparr>))
          = Some (Inl IntOverflow)"
      by (rule less.hyps [OF meas s0' lt' over''])
    then show ?thesis
      using lt False nunder
      by (subst render_loop.simps) simp
  qed
qed

text \<open>
  C6, as amended. For every render parameter set with \<^verbatim>\<open>samplesPerPixel\<close> at least 0
  and \<^verbatim>\<open>maxCpus\<close> at least 1 such that \<^verbatim>\<open>maxCpus\<close> times the ceiling of
  \<^verbatim>\<open>samplesPerPixel / maxCpus\<close> is at most \<^verbatim>\<open>INT_MAX\<close> (the loop counter does not
  overflow), whatever the frames the futures yield, the scheduler terminates; it
  launches the frame renders in exactly that ceiling many batches of at least one and at
  most \<^verbatim>\<open>maxCpus\<close> renders each, \<^verbatim>\<open>samplesPerPixel\<close> renders in total; and it calls the
  progress report and the checkpoint callback \<^verbatim>\<open>samplesPerPixel\<close> times, once after
  each merged sample, with the counts 1, 2, ..., \<^verbatim>\<open>samplesPerPixel\<close>.
\<close>

theorem render_batches:
  assumes spp: "0 \<le> samplesPerPixel renderParams"
    and cpus: "1 \<le> maxCpus renderParams"
    and fits: "maxCpus renderParams
        * \<lceil>real_of_int (samplesPerPixel renderParams) / real_of_int (maxCpus renderParams)\<rceil>
        \<le> INT_MAX"
  shows "\<exists>st. render renderParams frame = Some (Inr st)
      \<and> int (length (batches st))
          = \<lceil>real_of_int (samplesPerPixel renderParams) / real_of_int (maxCpus renderParams)\<rceil>
      \<and> (\<forall>n \<in> set (batches st). 1 \<le> n \<and> int n \<le> maxCpus renderParams)
      \<and> sum_list (batches st) = nat (samplesPerPixel renderParams)
      \<and> numDone st = nat (samplesPerPixel renderParams)
      \<and> map fst (updates st) = [1..<Suc (nat (samplesPerPixel renderParams))]
      \<and> progress st = [1..<Suc (nat (samplesPerPixel renderParams))]"
proof -
  define st0 where "st0 =
    \<lparr>outputBuffer = ArrayOutput_new (width renderParams) (height renderParams),
     numDone = 0, progress = [], updates = [], batches = []\<rparr>"
  have ceil: "\<lceil>real_of_int (samplesPerPixel renderParams) / real_of_int (maxCpus renderParams)\<rceil>
      = - ((- samplesPerPixel renderParams) div maxCpus renderParams)"
    by (rule ceiling_divide_eq_div)
  have nonneg: "0 \<le> - ((- samplesPerPixel renderParams) div maxCpus renderParams)"
  proof (cases "samplesPerPixel renderParams = 0")
    case True
    then show ?thesis by simp
  next
    case False
    then have "0 < samplesPerPixel renderParams"
      using spp by simp
    with cpus ceil_div_pos [of "maxCpus renderParams" 0 "samplesPerPixel renderParams"]
    show ?thesis by simp
  qed
  have fits0: "0 < samplesPerPixel renderParams \<longrightarrow>
      0 + maxCpus renderParams
        * (- ((- (samplesPerPixel renderParams - 0)) div maxCpus renderParams)) \<le> INT_MAX"
    using fits by (simp add: ceil)
  from render_loop_runs [OF cpus order_refl fits0, of frame st0]
  obtain st B where run: "render_loop renderParams frame 0 st0 = Some (Inr st)"
    and b: "batches st = batches st0 @ B"
    and lB: "int (length B)
        = max 0 (- ((- (samplesPerPixel renderParams - 0)) div maxCpus renderParams))"
    and bB: "\<forall>n \<in> set B. 1 \<le> n \<and> int n \<le> maxCpus renderParams"
    and sB: "sum_list B = nat (samplesPerPixel renderParams - 0)"
    and nd: "numDone st = numDone st0 + nat (samplesPerPixel renderParams - 0)"
    and up: "map fst (updates st) = map fst (updates st0)
         @ [Suc (numDone st0)..<Suc (numDone st0 + nat (samplesPerPixel renderParams - 0))]"
    and pr: "progress st = progress st0
         @ [Suc (numDone st0)..<Suc (numDone st0 + nat (samplesPerPixel renderParams - 0))]"
    by blast
  have "render renderParams frame = Some (Inr st)"
    using run by (simp add: render_def st0_def)
  moreover have "batches st = B"
    using b by (simp add: st0_def)
  moreover have "int (length B)
      = \<lceil>real_of_int (samplesPerPixel renderParams) / real_of_int (maxCpus renderParams)\<rceil>"
    using lB nonneg by (simp add: ceil)
  ultimately show ?thesis
    using bB sB nd up pr by (simp add: st0_def del: upt_Suc)
qed
lemma render_five_by_two:
  "\<exists>st. render (params0\<lparr>samplesPerPixel := 5, maxCpus := 2\<rparr>) frame0 = Some (Inr st)
      \<and> batches st = [2, 2, 1] \<and> map fst (updates st) = [1, 2, 3, 4, 5]
      \<and> progress st = [1, 2, 3, 4, 5]"
  by (simp add: render_def render_loop.simps launch_loop.simps params0_def INT_MAX_def
      INT_MIN_def)

theorem render_batches_witness:
  "0 \<le> samplesPerPixel (params0\<lparr>samplesPerPixel := 5, maxCpus := 2\<rparr>)
   \<and> 1 \<le> maxCpus (params0\<lparr>samplesPerPixel := 5, maxCpus := 2\<rparr>)
   \<and> maxCpus (params0\<lparr>samplesPerPixel := 5, maxCpus := 2\<rparr>)
        * \<lceil>real_of_int (samplesPerPixel (params0\<lparr>samplesPerPixel := 5, maxCpus := 2\<rparr>))
            / real_of_int (maxCpus (params0\<lparr>samplesPerPixel := 5, maxCpus := 2\<rparr>))\<rceil>
       \<le> INT_MAX
   \<and> (\<exists>st. render (params0\<lparr>samplesPerPixel := 5, maxCpus := 2\<rparr>) frame0 = Some (Inr st)
         \<and> int (length (batches st)) = 3
         \<and> (\<forall>n \<in> set (batches st). 1 \<le> n \<and> int n \<le> 2)
         \<and> sum_list (batches st) = 5
         \<and> numDone st = 5
         \<and> map fst (updates st) = [1..<6]
         \<and> progress st = [1..<6])"
proof -
  let ?p = "params0\<lparr>samplesPerPixel := 5, maxCpus := 2\<rparr>"
  have ceil: "\<lceil>real_of_int (samplesPerPixel ?p) / real_of_int (maxCpus ?p)\<rceil> = 3"
    by (simp add: ceiling_divide_eq_div)
  have spp: "0 \<le> samplesPerPixel ?p" and cpus: "1 \<le> maxCpus ?p"
    by simp_all
  have fits: "maxCpus ?p * \<lceil>real_of_int (samplesPerPixel ?p) / real_of_int (maxCpus ?p)\<rceil>
      \<le> INT_MAX"
    by (simp only: ceil) (simp add: INT_MAX_def)
  show ?thesis
    using render_batches [OF spp cpus fits, of frame0] spp cpus fits
    by (simp only: ceil) simp
qed

text \<open>
  C6 as stated fails: with \<^verbatim>\<open>samplesPerPixel\<close> 2147483647 and \<^verbatim>\<open>maxCpus\<close> 2 the
  loop counter reaches 2147483646, still below \<^verbatim>\<open>samplesPerPixel\<close>, and
  \<^verbatim>\<open>sample + maxCpus\<close> then overflows \<^verbatim>\<open>int\<close>, which is undefined behaviour: the
  scheduler does not complete the last batch.
\<close>

theorem render_counter_overflow:
  "0 \<le> samplesPerPixel (params0\<lparr>samplesPerPixel := 2147483647, maxCpus := 2\<rparr>)
   \<and> 1 \<le> maxCpus (params0\<lparr>samplesPerPixel := 2147483647, maxCpus := 2\<rparr>)
   \<and> render (params0\<lparr>samplesPerPixel := 2147483647, maxCpus := 2\<rparr>) frame0
       = Some (Inl IntOverflow)"
proof -
  let ?p = "params0\<lparr>samplesPerPixel := 2147483647, maxCpus := 2\<rparr>"
  have cpus: "1 \<le> maxCpus ?p" and lt: "0 < samplesPerPixel ?p"
    by simp_all
  have over: "INT_MAX < 0 + maxCpus ?p * (- ((- (samplesPerPixel ?p - 0)) div maxCpus ?p))"
    by (simp add: INT_MAX_def)
  have "render ?p frame0 = Some (Inl IntOverflow)"
    unfolding render_def by (rule render_loop_overflows [OF cpus order_refl lt over])
  then show ?thesis
    by simp
qed

text \<open>
  C4, what the code does. The claim says that two renders of the same scene, camera,
  seed and parameters with the same worker count use the same seed for each frame and
  give the same buffers. In a batch of two tasks that starts with the seed 0, the seeds
  the two frames are rendered with depend on the order in which the threads reach
  \<^verbatim>\<open>seed++\<close>: one after the other they get 0 and 1, in the other order 1 and 0, and
  when both read before either writes, both get 0 and the counter ends at 1.
\<close>

theorem seed_assignment_depends_on_schedule:
  "first_batch (params0\<lparr>samplesPerPixel := 2, maxCpus := 2\<rparr>)
     = \<lparr>seedVar = 0, tasks = [NotStarted, NotStarted]\<rparr>
   \<and> run_schedule [0, 0, 1, 1] (first_batch (params0\<lparr>samplesPerPixel := 2, maxCpus := 2\<rparr>))
     = \<lparr>seedVar = 2, tasks = [Rendering 0, Rendering 1]\<rparr>
   \<and> run_schedule [1, 1, 0, 0] (first_batch (params0\<lparr>samplesPerPixel := 2, maxCpus := 2\<rparr>))
     = \<lparr>seedVar = 2, tasks = [Rendering 1, Rendering 0]\<rparr>
   \<and> run_schedule [0, 1, 0, 1] (first_batch (params0\<lparr>samplesPerPixel := 2, maxCpus := 2\<rparr>))
     = \<lparr>seedVar = 1, tasks = [Rendering 0, Rendering 0]\<rparr>"
  by (simp add: first_batch_def params0_def task_step_def numeral_2_eq_2)

end
